theory Spec2Isabelle
  imports Complex_Main
begin

section \<open>Data model of the streamline attribute module\<close>

text \<open>
  The module \<open>scilpy/tractograms/dps_and_dpp_management.py\<close> works on a stateful
  tractogram: an ordered collection of streamlines (each an ordered sequence of 3D
  points), two dictionaries of attributes (\<open>data_per_streamline\<close>, one value per
  streamline, and \<open>data_per_point\<close>, one value per point of every streamline), the
  coordinate convention tags \<open>space\<close> and \<open>origin\<close>, and the \<open>dimensions\<close> of the
  reference grid. Attribute values are kept polymorphic (\<open>'v\<close>) where the code only
  copies them; the numeric functions instantiate \<open>'v\<close> with vectors of floats.
\<close>

type_synonym key = string

type_synonym point = "real \<times> real \<times> real"

datatype space = RASMM | VOXMM | VOX

datatype origin = NIFTI | TRACKVIS

record 'v tractogram =
  streamlines :: "point list list"
  data_per_streamline :: "key \<rightharpoonup> 'v list"
  data_per_point :: "key \<rightharpoonup> 'v list list"
  space :: space
  origin :: origin
  dimensions :: "nat \<times> nat \<times> nat"

text \<open>
  Every exception the module can raise is a value. The two \<open>ValueError\<close>s raised by
  \<open>convert_dps_to_dpp\<close> carry the key of their message (``Dps key ... not found!'',
  ``Dpp key ... already existed.''); the others are the exceptions raised by the
  Python and NumPy primitives that the code calls.
\<close>

datatype error =
    DpsKeyNotFound key
  | DppKeyExists key
  | KeyError key
  | IndexError
  | TypeError
  | ValueError
  | AxisError

definition ebind :: "error + 'a \<Rightarrow> ('a \<Rightarrow> error + 'b) \<Rightarrow> error + 'b" where
  "ebind m f = (case m of Inl e \<Rightarrow> Inl e | Inr x \<Rightarrow> f x)"

text \<open>Running a loop body over a list, stopping at the first exception.\<close>

fun mapM :: "('a \<Rightarrow> error + 'b) \<Rightarrow> 'a list \<Rightarrow> error + 'b list" where
  "mapM f [] = Inr []"
| "mapM f (x # xs) = ebind (f x) (\<lambda>y. ebind (mapM f xs) (\<lambda>ys. Inr (y # ys)))"

fun foldM :: "('a \<Rightarrow> 's \<Rightarrow> error + 's) \<Rightarrow> 'a list \<Rightarrow> 's \<Rightarrow> error + 's" where
  "foldM f [] s = Inr s"
| "foldM f (x # xs) s = ebind (f x s) (foldM f xs)"

text \<open>
  Indexing a Python sequence or the first axis of a NumPy array with an integer: an index
  from \<open>-len\<close> up to \<open>-1\<close> is taken from the end, an index outside \<open>-len .. len - 1\<close>
  raises \<open>IndexError\<close>.
\<close>

definition norm_index :: "nat \<Rightarrow> int \<Rightarrow> error + nat" where
  "norm_index n i =
     (if 0 \<le> i \<and> i < int n then Inr (nat i)
      else if i < 0 \<and> - int n \<le> i then Inr (nat (int n + i))
      else Inl IndexError)"

definition py_index :: "'a list \<Rightarrow> int \<Rightarrow> error + 'a" where
  "py_index xs i = ebind (norm_index (length xs) i) (\<lambda>j. Inr (xs ! j))"

section \<open>\<open>convert_dps_to_dpp\<close>\<close>

text \<open>
  The list comprehension \<open>[[val]*len(s) for val, s in zip(dps[key], streamlines)]\<close>:
  \<open>zip\<close> stops at the shorter of its two arguments.
\<close>

definition broadcast :: "'v list \<Rightarrow> point list list \<Rightarrow> 'v list list" where
  "broadcast vals sls = map (\<lambda>(val, s). replicate (length s) val) (zip vals sls)"

text \<open>
  The loop over \<open>keys\<close>. The tractogram is mutated in place, so the model returns the
  outcome of the call (an exception, or normal return) together with the tractogram as
  the call leaves it; on normal return that tractogram is also the returned value.
\<close>

fun convert_dps_to_dpp ::
  "'v tractogram \<Rightarrow> key list \<Rightarrow> bool \<Rightarrow> (error + unit) \<times> 'v tractogram" where
  "convert_dps_to_dpp sft [] overwrite = (Inr (), sft)"
| "convert_dps_to_dpp sft (key # keys) overwrite =
     (case data_per_streamline sft key of
        None \<Rightarrow> (Inl (DpsKeyNotFound key), sft)
      | Some vals \<Rightarrow>
          if data_per_point sft key \<noteq> None \<and> \<not> overwrite
          then (Inl (DppKeyExists key), sft)
          else convert_dps_to_dpp
                 (sft\<lparr>data_per_point :=
                        (data_per_point sft)(key \<mapsto> broadcast vals (streamlines sft)),
                      data_per_streamline := (data_per_streamline sft)(key := None)\<rparr>)
                 keys overwrite)"

section \<open>Floats and NumPy arrays\<close>

text \<open>
  A float is a finite value or the not-a-number sentinel. Arithmetic on finite values is
  exact (rounding is not modelled) and \<open>NaN\<close> propagates through every operation, as in
  IEEE arithmetic. The only divisions by zero that the module can perform have a zero
  numerator (the mean of an empty array, a correlation with zero variance), for which
  IEEE arithmetic gives \<open>NaN\<close>.
\<close>

datatype pyfloat = NaN | Fin real

fun fadd :: "pyfloat \<Rightarrow> pyfloat \<Rightarrow> pyfloat" where
  "fadd (Fin a) (Fin b) = Fin (a + b)"
| "fadd _ _ = NaN"

fun fsub :: "pyfloat \<Rightarrow> pyfloat \<Rightarrow> pyfloat" where
  "fsub (Fin a) (Fin b) = Fin (a - b)"
| "fsub _ _ = NaN"

fun fmul :: "pyfloat \<Rightarrow> pyfloat \<Rightarrow> pyfloat" where
  "fmul (Fin a) (Fin b) = Fin (a * b)"
| "fmul _ _ = NaN"

fun fdiv :: "pyfloat \<Rightarrow> pyfloat \<Rightarrow> pyfloat" where
  "fdiv (Fin a) (Fin b) = (if b = 0 then NaN else Fin (a / b))"
| "fdiv _ _ = NaN"

fun fmin :: "pyfloat \<Rightarrow> pyfloat \<Rightarrow> pyfloat" where
  "fmin (Fin a) (Fin b) = Fin (min a b)"
| "fmin _ _ = NaN"

fun fmax :: "pyfloat \<Rightarrow> pyfloat \<Rightarrow> pyfloat" where
  "fmax (Fin a) (Fin b) = Fin (max a b)"
| "fmax _ _ = NaN"

fun fsqrt :: "pyfloat \<Rightarrow> pyfloat" where
  "fsqrt (Fin a) = (if a < 0 then NaN else Fin (sqrt a))"
| "fsqrt NaN = NaN"

fun fclip :: "real \<Rightarrow> real \<Rightarrow> pyfloat \<Rightarrow> pyfloat" where
  "fclip lo hi (Fin a) = Fin (min hi (max lo a))"
| "fclip lo hi NaN = NaN"

definition fsum :: "pyfloat list \<Rightarrow> pyfloat" where
  "fsum xs = foldr fadd xs (Fin 0)"

text \<open>
  A NumPy array of floats of at most two axes: a 0-d scalar, a 1-d vector, or a 2-d
  matrix given by its rows (all of one width).
\<close>

datatype ndarray = Scalar pyfloat | Vector "pyfloat list" | Matrix "pyfloat list list"

text \<open>
  \<open>np.asarray\<close> of a per-point sequence (a sequence of rows): the empty sequence is the
  empty 1-d array, rows of unequal width do not form an array.
\<close>

definition np_asarray :: "pyfloat list list \<Rightarrow> error + ndarray" where
  "np_asarray rows =
     (case rows of
        [] \<Rightarrow> Inr (Vector [])
      | r # rs \<Rightarrow> if list_all (\<lambda>q. length q = length r) rs then Inr (Matrix rows)
                else Inl ValueError)"

definition columns :: "pyfloat list list \<Rightarrow> pyfloat list list" where
  "columns rows =
     (case rows of
        [] \<Rightarrow> []
      | r # rs \<Rightarrow> map (\<lambda>j. map (\<lambda>row. row ! j) rows) [0..<length r])"

text \<open>
  A reduction \<open>np.f(array, axis=0)\<close>: a 0-d array has no axis 0; a vector reduces to a
  scalar; a matrix reduces column by column to a vector.
\<close>

fun reduce_axis0 :: "(pyfloat list \<Rightarrow> error + pyfloat) \<Rightarrow> ndarray \<Rightarrow> error + ndarray" where
  "reduce_axis0 f (Scalar x) = Inl AxisError"
| "reduce_axis0 f (Vector xs) = ebind (f xs) (\<lambda>r. Inr (Scalar r))"
| "reduce_axis0 f (Matrix rows) = ebind (mapM f (columns rows)) (\<lambda>rs. Inr (Vector rs))"

definition vmean :: "pyfloat list \<Rightarrow> error + pyfloat" where
  "vmean xs = Inr (fdiv (fsum xs) (Fin (real (length xs))))"

definition vsum :: "pyfloat list \<Rightarrow> error + pyfloat" where
  "vsum xs = Inr (fsum xs)"

text \<open>\<open>np.min\<close> and \<open>np.max\<close> of a zero-size array raise \<open>ValueError\<close>.\<close>

definition vmin :: "pyfloat list \<Rightarrow> error + pyfloat" where
  "vmin xs = (case xs of [] \<Rightarrow> Inl ValueError | y # ys \<Rightarrow> Inr (foldl fmin y ys))"

definition vmax :: "pyfloat list \<Rightarrow> error + pyfloat" where
  "vmax xs = (case xs of [] \<Rightarrow> Inl ValueError | y # ys \<Rightarrow> Inr (foldl fmax y ys))"

text \<open>\<open>np.squeeze\<close> removes every axis of length one.\<close>

fun np_squeeze :: "ndarray \<Rightarrow> ndarray" where
  "np_squeeze (Scalar x) = Scalar x"
| "np_squeeze (Vector [x]) = Scalar x"
| "np_squeeze (Vector xs) = Vector xs"
| "np_squeeze (Matrix [[x]]) = Scalar x"
| "np_squeeze (Matrix [r]) = Vector r"
| "np_squeeze (Matrix rows) =
     (if rows \<noteq> [] \<and> list_all (\<lambda>r. length r = 1) rows then Vector (map hd rows)
      else Matrix rows)"

text \<open>
  \<open>np.corrcoef(x, y)\<close>, NumPy's Pearson correlation coefficients (library code, modelled
  from its documentation): the rows of \<open>x\<close> and of \<open>y\<close> are the variables, the covariance
  of two variables is normalised by \<open>N - 1\<close>, each entry is divided by the standard
  deviations of its two variables and clipped to \<open>[-1, 1]\<close>. With fewer than two
  observations every entry is \<open>NaN\<close>.
\<close>

definition cov :: "pyfloat list \<Rightarrow> pyfloat list \<Rightarrow> pyfloat" where
  "cov u v =
     (let n = length u;
          mu = fdiv (fsum u) (Fin (real n));
          mv = fdiv (fsum v) (Fin (real n))
      in if n \<le> 1 then NaN
         else fdiv (fsum (map (\<lambda>(a, b). fmul (fsub a mu) (fsub b mv)) (zip u v)))
                (Fin (real n - 1)))"

definition corr :: "pyfloat list \<Rightarrow> pyfloat list \<Rightarrow> pyfloat" where
  "corr u v = fclip (- 1) 1 (fdiv (fdiv (cov u v) (fsqrt (cov u u))) (fsqrt (cov v v)))"

fun rows_of :: "ndarray \<Rightarrow> pyfloat list list" where
  "rows_of (Scalar x) = [[x]]"
| "rows_of (Vector v) = [v]"
| "rows_of (Matrix m) = m"

definition np_corrcoef :: "ndarray \<Rightarrow> ndarray \<Rightarrow> error + ndarray" where
  "np_corrcoef x y =
     (let vars = rows_of x @ rows_of y in
      if rows_of x = [] then Inr (Matrix [])
      else if \<not> list_all (\<lambda>v. length v = length (hd vars)) vars then Inl ValueError
      else if length vars = 1 then Inr (Scalar (fdiv (cov (hd vars) (hd vars))
                                                  (cov (hd vars) (hd vars))))
      else Inr (Matrix (map (\<lambda>u. map (\<lambda>v. corr u v) vars) vars)))"

text \<open>Indexing an array with two integers, \<open>a[i, j]\<close>: only a matrix has two axes.\<close>

fun np_index2 :: "ndarray \<Rightarrow> int \<Rightarrow> int \<Rightarrow> error + pyfloat" where
  "np_index2 (Matrix rows) i j = ebind (py_index rows i) (\<lambda>r. py_index r j)"
| "np_index2 _ i j = Inl IndexError"

section \<open>The operator registry\<close>

definition stream_mean :: "ndarray \<Rightarrow> error + ndarray" where
  "stream_mean array = ebind (reduce_axis0 vmean array) (\<lambda>r. Inr (np_squeeze r))"

definition stream_sum :: "ndarray \<Rightarrow> error + ndarray" where
  "stream_sum array = ebind (reduce_axis0 vsum array) (\<lambda>r. Inr (np_squeeze r))"

definition stream_min :: "ndarray \<Rightarrow> error + ndarray" where
  "stream_min array = ebind (reduce_axis0 vmin array) (\<lambda>r. Inr (np_squeeze r))"

definition stream_max :: "ndarray \<Rightarrow> error + ndarray" where
  "stream_max array = ebind (reduce_axis0 vmax array) (\<lambda>r. Inr (np_squeeze r))"

definition stream_correlation :: "ndarray \<Rightarrow> ndarray \<Rightarrow> error + ndarray" where
  "stream_correlation array1 array2 = np_corrcoef array1 array2"

text \<open>
  A registered operator is a Python function of one or of two positional parameters;
  calling it with another number of arguments raises \<open>TypeError\<close> before its body runs.
\<close>

datatype operation =
    Op1 "ndarray \<Rightarrow> error + ndarray"
  | Op2 "ndarray \<Rightarrow> ndarray \<Rightarrow> error + ndarray"

fun call1 :: "operation \<Rightarrow> ndarray \<Rightarrow> error + ndarray" where
  "call1 (Op1 f) a = f a"
| "call1 (Op2 f) a = Inl TypeError"

fun call2 :: "operation \<Rightarrow> ndarray \<Rightarrow> ndarray \<Rightarrow> error + ndarray" where
  "call2 (Op1 f) a b = Inl TypeError"
| "call2 (Op2 f) a b = f a b"

definition OPERATIONS :: "string \<rightharpoonup> operation" where
  "OPERATIONS =
     map_of [(''mean'', Op1 stream_mean),
             (''sum'', Op1 stream_sum),
             (''min'', Op1 stream_min),
             (''max'', Op1 stream_max),
             (''correlation'', Op2 stream_correlation)]"

text \<open>A dictionary lookup \<open>d[k]\<close>, raising \<open>KeyError\<close> on an absent key.\<close>

definition lookup :: "(key \<rightharpoonup> 'a) \<Rightarrow> key \<Rightarrow> error + 'a" where
  "lookup d k = (case d k of None \<Rightarrow> Inl (KeyError k) | Some v \<Rightarrow> Inr v)"

text \<open>
  Item access \<open>d[k]\<close> on an attribute dictionary of the tractogram container (the
  sliceable dictionary of the tractogram library, which is library code and not a plain
  Python dictionary). A stored key gives its value. An absent key is next tried as an
  index into every stored value: a string is no index, so with at least one stored value
  the access ends in \<open>KeyError\<close>; with nothing stored there is no value to reject the
  index, and the access returns a new, empty dictionary instead of raising.
\<close>

datatype 'a item = Stored 'a | Empty_dict

definition getitem :: "(key \<rightharpoonup> 'a) \<Rightarrow> key \<Rightarrow> error + 'a item" where
  "getitem d k =
     (case d k of
        Some v \<Rightarrow> Inr (Stored v)
      | None \<Rightarrow> if d = Map.empty then Inr Empty_dict else Inl (KeyError k))"

text \<open>
  What iterating over the result, or turning it into an array, sees: the elements of a
  stored sequence, and nothing for the empty dictionary.
\<close>

definition entries :: "'a list item \<Rightarrow> 'a list" where
  "entries x = (case x of Stored xs \<Rightarrow> xs | Empty_dict \<Rightarrow> [])"

text \<open>
  Indexing the result with an integer: a stored sequence is indexed like any sequence;
  the empty dictionary has no value to index and gives an empty dictionary again.
\<close>

definition item_index :: "'a list item \<Rightarrow> int \<Rightarrow> error + 'a item" where
  "item_index x i =
     (case x of
        Stored xs \<Rightarrow> ebind (py_index xs i) (\<lambda>y. Inr (Stored y))
      | Empty_dict \<Rightarrow> Inr Empty_dict)"

section \<open>\<open>perform_operation_dpp_to_dps\<close>\<close>

text \<open>
  The per-point values of one streamline are its rows, one vector of floats per point.
  With \<open>endpoints_only\<close> the operator is called on \<open>np.concatenate((s[0], s[-1]))\<close>,
  otherwise on \<open>np.asarray(s)\<close>.
\<close>

definition perform_operation_dpp_to_dps ::
  "string \<Rightarrow> (pyfloat list) tractogram \<Rightarrow> key \<Rightarrow> bool \<Rightarrow> error + ndarray list" where
  "perform_operation_dpp_to_dps op_name sft dpp_name endpoints_only =
     ebind (lookup OPERATIONS op_name) (\<lambda>call_op.
     ebind (getitem (data_per_point sft) dpp_name) (\<lambda>d.
       if endpoints_only
       then mapM (\<lambda>s. ebind (py_index s 0) (\<lambda>start.
                       ebind (py_index s (- 1)) (\<lambda>end'.
                         call1 call_op (Vector (start @ end'))))) (entries d)
       else mapM (\<lambda>s. ebind (np_asarray s) (\<lambda>s_np. call1 call_op s_np)) (entries d)))"

section \<open>\<open>perform_pairwise_streamline_operation_on_endpoints\<close>\<close>

definition perform_pairwise_streamline_operation_on_endpoints ::
  "string \<Rightarrow> (pyfloat list) tractogram \<Rightarrow> key \<Rightarrow> error + pyfloat list" where
  "perform_pairwise_streamline_operation_on_endpoints op_name sft dpp_name =
     ebind (lookup OPERATIONS op_name) (\<lambda>call_op.
     ebind (getitem (data_per_point sft) dpp_name) (\<lambda>d.
       mapM (\<lambda>s. ebind (py_index s 0) (\<lambda>p1.
                 ebind (py_index s (- 1)) (\<lambda>p2.
                 ebind (call2 call_op (Vector p1) (Vector p2)) (\<lambda>r.
                   np_index2 r 0 1)))) (entries d)))"

section \<open>\<open>project_map_to_streamlines\<close>\<close>

text \<open>
  Modelled from the spec: the volumetric map (\<open>DataVolume\<close>, whose class is not among the
  sources) is a numeric grid with the shape of its data and the coordinate lookup
  \<open>get_value_at_coordinate(x, y, z, space, origin)\<close>, which returns a scalar for a 3D map
  and a vector for a 4D map and only reads the map.
\<close>

record data_volume =
  data_shape :: "nat list"
  get_value_at_coordinate :: "real \<Rightarrow> real \<Rightarrow> real \<Rightarrow> space \<Rightarrow> origin \<Rightarrow> ndarray"

text \<open>
  The objects the call can reach are its two arguments. Every step of the model takes
  them and hands them on, so that the tractogram and the map as the call leaves them are
  part of its outcome.
\<close>

type_synonym 'v world = "'v tractogram \<times> data_volume"

definition value_at :: "'v world \<Rightarrow> point \<Rightarrow> ndarray \<times> 'v world" where
  "value_at w p =
     (case p of (x, y, z) \<Rightarrow>
        (get_value_at_coordinate (snd w) x y z (space (fst w)) (origin (fst w)), w))"

text \<open>
  The assignment \<open>array[i] = value\<close> to a row of a matrix: the value is broadcast to
  the width of the row (a scalar fills the row, a vector must have the width of the row
  or a single element, leading axes of length one are dropped).
\<close>

definition broadcast_vector :: "nat \<Rightarrow> pyfloat list \<Rightarrow> error + pyfloat list" where
  "broadcast_vector d v =
     (if length v = d then Inr v
      else if length v = 1 then Inr (replicate d (hd v))
      else Inl ValueError)"

fun np_broadcast_row :: "nat \<Rightarrow> ndarray \<Rightarrow> error + pyfloat list" where
  "np_broadcast_row d (Scalar x) = Inr (replicate d x)"
| "np_broadcast_row d (Vector v) = broadcast_vector d v"
| "np_broadcast_row d (Matrix [v]) = broadcast_vector d v"
| "np_broadcast_row d (Matrix m) = Inl ValueError"

definition np_set_row :: "pyfloat list list \<Rightarrow> int \<Rightarrow> ndarray \<Rightarrow> error + pyfloat list list" where
  "np_set_row arr i v =
     ebind (norm_index (length arr) i) (\<lambda>j.
     ebind (np_broadcast_row (length (arr ! j)) v) (\<lambda>r.
       Inr (arr[j := r])))"

text \<open>
  \<open>np.reshape(samples, (n, d))\<close> of a list of samples: the samples must have one shape,
  and their \<open>n * d\<close> values are laid out row by row.
\<close>

fun shape_of :: "ndarray \<Rightarrow> nat list" where
  "shape_of (Scalar x) = []"
| "shape_of (Vector v) = [length v]"
| "shape_of (Matrix m) = [length m, (case m of [] \<Rightarrow> 0 | r # rs \<Rightarrow> length r)]"

fun flat_of :: "ndarray \<Rightarrow> pyfloat list" where
  "flat_of (Scalar x) = [x]"
| "flat_of (Vector v) = v"
| "flat_of (Matrix m) = concat m"

definition np_reshape :: "ndarray list \<Rightarrow> nat \<Rightarrow> nat \<Rightarrow> error + pyfloat list list" where
  "np_reshape samples n d =
     (let flat = concat (map flat_of samples) in
      if \<not> list_all (\<lambda>a. shape_of a = shape_of (hd samples)) samples then Inl ValueError
      else if length flat \<noteq> n * d then Inl ValueError
      else Inr (map (\<lambda>i. take d (drop (i * d) flat)) [0..<n]))"

text \<open>
  The body of the loop with \<open>endpoints_only\<close>: the map is sampled at \<open>s[0]\<close> and at
  \<open>s[-1]\<close>, a fresh array of \<open>len(s)\<close> rows of \<open>dimension\<close> \<open>NaN\<close>s is made, and its first
  and last rows are assigned the two samples. The final \<open>np.reshape\<close> to
  \<open>(len(s), dimension)\<close> is applied to an array that has this shape already.
\<close>

definition project_endpoints ::
  "nat \<Rightarrow> 'v world \<Rightarrow> point list \<Rightarrow> (error + pyfloat list list) \<times> 'v world" where
  "project_endpoints dimension w s =
     (case py_index s 0 of
        Inl e \<Rightarrow> (Inl e, w)
      | Inr p1 \<Rightarrow>
         (case value_at w p1 of (p1_data, w1) \<Rightarrow>
           (case py_index s (- 1) of
              Inl e \<Rightarrow> (Inl e, w1)
            | Inr p2 \<Rightarrow>
               (case value_at w1 p2 of (p2_data, w2) \<Rightarrow>
                  (ebind (np_set_row (replicate (length s) (replicate dimension NaN)) 0 p1_data)
                     (\<lambda>thisstreamline_data. np_set_row thisstreamline_data (- 1) p2_data),
                   w2)))))"

text \<open>The inner loop without \<open>endpoints_only\<close>: one sample per point, in order.\<close>

fun sample_points :: "'v world \<Rightarrow> point list \<Rightarrow> ndarray list \<times> 'v world" where
  "sample_points w [] = ([], w)"
| "sample_points w (p # ps) =
     (case value_at w p of (v, w1) \<Rightarrow>
       (case sample_points w1 ps of (vs, w2) \<Rightarrow> (v # vs, w2)))"

definition project_all_points ::
  "nat \<Rightarrow> 'v world \<Rightarrow> point list \<Rightarrow> (error + pyfloat list list) \<times> 'v world" where
  "project_all_points dimension w s =
     (case sample_points w s of (thisstreamline_data, w1) \<Rightarrow>
        (np_reshape thisstreamline_data (length thisstreamline_data) dimension, w1))"

text \<open>The loop over the streamlines, appending one array per streamline.\<close>

fun for_streamlines ::
  "('w \<Rightarrow> 'a \<Rightarrow> (error + 'b) \<times> 'w) \<Rightarrow> 'w \<Rightarrow> 'a list \<Rightarrow> (error + 'b list) \<times> 'w" where
  "for_streamlines body w [] = (Inr [], w)"
| "for_streamlines body w (s # ss) =
     (case body w s of
        (Inl e, w1) \<Rightarrow> (Inl e, w1)
      | (Inr a, w1) \<Rightarrow>
         (case for_streamlines body w1 ss of
            (Inl e, w2) \<Rightarrow> (Inl e, w2)
          | (Inr as, w2) \<Rightarrow> (Inr (a # as), w2)))"

text \<open>The number of channels: the length of the fourth axis of a 4D map, else one.\<close>

definition dimension_of :: "data_volume \<Rightarrow> nat" where
  "dimension_of map_volume =
     (if length (data_shape map_volume) = 4 then data_shape map_volume ! 3 else 1)"

definition project_map_to_streamlines ::
  "'v tractogram \<Rightarrow> data_volume \<Rightarrow> bool \<Rightarrow> (error + pyfloat list list list) \<times> 'v world" where
  "project_map_to_streamlines sft map_volume endpoints_only =
     (let dimension = dimension_of map_volume
      in if endpoints_only
         then for_streamlines (project_endpoints dimension) (sft, map_volume) (streamlines sft)
         else for_streamlines (project_all_points dimension) (sft, map_volume)
                (streamlines sft))"

text \<open>
  A sample agrees with the shape of the map when it is a scalar and the map is not 4D,
  or a vector as long as the fourth axis of a 4D map.
\<close>

fun sample_fits :: "nat list \<Rightarrow> ndarray \<Rightarrow> bool" where
  "sample_fits shape (Scalar x) = (length shape \<noteq> 4)"
| "sample_fits shape (Vector v) = (length shape = 4 \<and> length v = shape ! 3)"
| "sample_fits shape (Matrix m) = False"

section \<open>\<open>project_dpp_to_map\<close>\<close>

text \<open>
  Modelled from the spec: \<open>to_vox\<close> and \<open>to_corner\<close> are methods of the tractogram
  container, which is not among the sources. They move every streamline point to voxel
  space and to the voxel-corner origin and set the convention tags. The affine maps are
  capabilities of the tractogram and are taken as parameters: \<open>vox_of sp\<close> maps a point
  given in space \<open>sp\<close> to voxel space, \<open>corner_of og\<close> maps a voxel-space point given with
  origin \<open>og\<close> to the corner origin.
\<close>

definition to_vox :: "(space \<Rightarrow> point \<Rightarrow> point) \<Rightarrow> 'v tractogram \<Rightarrow> 'v tractogram" where
  "to_vox vox_of sft =
     sft\<lparr>streamlines := map (map (vox_of (space sft))) (streamlines sft), space := VOX\<rparr>"

definition to_corner :: "(origin \<Rightarrow> point \<Rightarrow> point) \<Rightarrow> 'v tractogram \<Rightarrow> 'v tractogram" where
  "to_corner corner_of sft =
     sft\<lparr>streamlines := map (map (corner_of (origin sft))) (streamlines sft),
         origin := TRACKVIS\<rparr>"

text \<open>\<open>astype(int)\<close> of a float truncates towards zero.\<close>

definition trunc_int :: "real \<Rightarrow> int" where
  "trunc_int x = (if 0 \<le> x then \<lfloor>x\<rfloor> else \<lceil>x\<rceil>)"

type_synonym voxel = "nat \<times> nat \<times> nat"

text \<open>
  Indexing a 3D array of the given dimensions with three integers, each checked and
  normalised like a Python index. The voxel of a point is the index obtained from its
  truncated coordinates.
\<close>

definition np_index3 :: "nat \<times> nat \<times> nat \<Rightarrow> int \<times> int \<times> int \<Rightarrow> error + voxel" where
  "np_index3 dims idx =
     (case dims of (nx, ny, nz) \<Rightarrow>
      (case idx of (x, y, z) \<Rightarrow>
         ebind (norm_index nx x) (\<lambda>i.
         ebind (norm_index ny y) (\<lambda>j.
         ebind (norm_index nz z) (\<lambda>k. Inr (i, j, k))))))"

definition voxel_of :: "nat \<times> nat \<times> nat \<Rightarrow> point \<Rightarrow> error + voxel" where
  "voxel_of dims p =
     (case p of (x, y, z) \<Rightarrow> np_index3 dims (trunc_int x, trunc_int y, trunc_int z))"

text \<open>
  \<open>the_map[x, y, z] += value\<close> stores into one element of the map: a per-point value of
  one element is added, a value of any other size cannot be stored in an element. The
  empty dictionary that the container returns when it stores nothing is such a value: it
  is taken as a sequence of no elements.
\<close>

definition as_scalar :: "pyfloat list \<Rightarrow> error + pyfloat" where
  "as_scalar val = (case val of [x] \<Rightarrow> Inr x | _ \<Rightarrow> Inl ValueError)"

definition points_of :: "bool \<Rightarrow> point list \<Rightarrow> int list" where
  "points_of endpoints_only s = (if endpoints_only then [0, - 1] else map int [0..<length s])"

text \<open>
  The body of the inner loop for point \<open>p\<close> of streamline \<open>s\<close>. The arrays \<open>count\<close> and
  \<open>the_map\<close> are functions from voxels to their elements, zero everywhere at the start;
  \<open>count\<close> only ever holds whole numbers. The counter is incremented before the per-point
  key is looked up.
\<close>

definition accumulate ::
  "(pyfloat list) tractogram \<Rightarrow> key \<Rightarrow> nat \<Rightarrow> int \<Rightarrow> (voxel \<Rightarrow> nat) \<times> (voxel \<Rightarrow> pyfloat)
     \<Rightarrow> error + (voxel \<Rightarrow> nat) \<times> (voxel \<Rightarrow> pyfloat)" where
  "accumulate sft dpp_key s p st =
     (case st of (count, the_map) \<Rightarrow>
        ebind (py_index (streamlines sft ! s) p) (\<lambda>pt.
        ebind (voxel_of (dimensions sft) pt) (\<lambda>v.
        ebind (getitem (data_per_point sft) dpp_key) (\<lambda>d.
        ebind (item_index d (int s)) (\<lambda>ds.
        ebind (item_index ds p) (\<lambda>val.
        ebind (as_scalar (entries val)) (\<lambda>x.
          Inr (count(v := count v + 1), the_map(v := fadd (the_map v) x)))))))))"

definition accumulate_all ::
  "(pyfloat list) tractogram \<Rightarrow> key \<Rightarrow> bool
     \<Rightarrow> error + (voxel \<Rightarrow> nat) \<times> (voxel \<Rightarrow> pyfloat)" where
  "accumulate_all sft dpp_key endpoints_only =
     foldM (\<lambda>s. foldM (accumulate sft dpp_key s) (points_of endpoints_only (streamlines sft ! s)))
       [0..<length (streamlines sft)] (\<lambda>v. 0, \<lambda>v. Fin 0)"

text \<open>
  The whole call: the tractogram is converted first and stays converted, whatever the
  outcome. Without \<open>sum_lines\<close> the map is divided element by element by
  \<open>np.maximum(count, 1e-6)\<close>.
\<close>

definition project_dpp_to_map ::
  "(space \<Rightarrow> point \<Rightarrow> point) \<Rightarrow> (origin \<Rightarrow> point \<Rightarrow> point) \<Rightarrow> (pyfloat list) tractogram \<Rightarrow> key
     \<Rightarrow> bool \<Rightarrow> bool \<Rightarrow> (error + (voxel \<Rightarrow> pyfloat)) \<times> (pyfloat list) tractogram" where
  "project_dpp_to_map vox_of corner_of sft dpp_key sum_lines endpoints_only =
     (let sft' = to_corner corner_of (to_vox vox_of sft)
      in (ebind (accumulate_all sft' dpp_key endpoints_only) (\<lambda>(count, the_map).
            if \<not> sum_lines
            then Inr (\<lambda>v. fdiv (the_map v) (Fin (max (real (count v)) (1 / 10 ^ 6))))
            else Inr the_map),
          sft'))"

text \<open>
  The voxels visited by the selected points of a tractogram, in the order of the two
  loops; an entry is an error where the selected point does not exist or lies outside
  the grid.
\<close>

definition visited :: "'v tractogram \<Rightarrow> bool \<Rightarrow> (error + voxel) list" where
  "visited sft endpoints_only =
     concat (map (\<lambda>s. map (\<lambda>p. ebind (py_index s p) (voxel_of (dimensions sft)))
                         (points_of endpoints_only s))
               (streamlines sft))"

text \<open>
  The visits of the inner loop for streamline \<open>s\<close> and a list of point indices, and of
  the outer loop for a list of streamline indices.
\<close>

definition visits_of ::
  "(pyfloat list) tractogram \<Rightarrow> nat \<Rightarrow> int list \<Rightarrow> (error + voxel) list" where
  "visits_of sft s ps =
     map (\<lambda>p. ebind (py_index (streamlines sft ! s) p) (voxel_of (dimensions sft))) ps"

definition all_visits ::
  "(pyfloat list) tractogram \<Rightarrow> bool \<Rightarrow> nat list \<Rightarrow> (error + voxel) list" where
  "all_visits sft eo ss =
     concat (map (\<lambda>s. visits_of sft s (points_of eo (streamlines sft ! s))) ss)"

section \<open>Example inputs\<close>

text \<open>
  One streamline of two points whose key \<open>k\<close> is both a per-streamline and a
  per-point attribute.
\<close>

definition ex_collision :: "int tractogram" where
  "ex_collision =
     \<lparr>streamlines = [[(0, 0, 0), (1, 0, 0)]],
      data_per_streamline = [''k'' \<mapsto> [7]],
      data_per_point = [''k'' \<mapsto> [[1, 2]]],
      space = RASMM, origin = NIFTI, dimensions = (2, 2, 2)\<rparr>"

text \<open>One streamline of three points with the single per-streamline key \<open>a\<close>.\<close>

definition ex_one_key :: "int tractogram" where
  "ex_one_key =
     \<lparr>streamlines = [[(0, 0, 0), (1, 0, 0), (2, 0, 0)]],
      data_per_streamline = [''a'' \<mapsto> [7]],
      data_per_point = Map.empty,
      space = RASMM, origin = NIFTI, dimensions = (2, 2, 2)\<rparr>"

text \<open>
  One streamline of four points with the scalar per-point values \<open>1, 2, 3, 10\<close> under
  the key \<open>metric\<close>.
\<close>

definition ex_skewed :: "(pyfloat list) tractogram" where
  "ex_skewed =
     \<lparr>streamlines = [[(0, 0, 0), (1, 0, 0), (2, 0, 0), (3, 0, 0)]],
      data_per_streamline = Map.empty,
      data_per_point = [''metric'' \<mapsto> [[[Fin 1], [Fin 2], [Fin 3], [Fin 10]]]],
      space = RASMM, origin = NIFTI, dimensions = (4, 1, 1)\<rparr>"

text \<open>
  One streamline of three points whose per-point values under \<open>metric\<close> are vectors of
  three floats.
\<close>

definition ex_vectors :: "(pyfloat list) tractogram" where
  "ex_vectors =
     \<lparr>streamlines = [[(0, 0, 0), (1, 0, 0), (2, 0, 0)]],
      data_per_streamline = Map.empty,
      data_per_point =
        [''metric'' \<mapsto> [[[Fin 1, Fin 2, Fin 3], [Fin 5, Fin 5, Fin 5], [Fin 2, Fin 4, Fin 6]]]],
      space = RASMM, origin = NIFTI, dimensions = (4, 1, 1)\<rparr>"

text \<open>A 3D map whose value at a point is the first coordinate of the point.\<close>

definition ex_volume :: data_volume where
  "ex_volume = \<lparr>data_shape = [4, 1, 1],
                 get_value_at_coordinate = (\<lambda>x y z sp og. Scalar (Fin x))\<rparr>"

text \<open>
  Coordinate conversions for the examples: world and voxel space coincide, and the
  centre-origin convention is half a voxel away from the corner-origin convention.
\<close>

definition id_vox :: "space \<Rightarrow> point \<Rightarrow> point" where
  "id_vox sp p = p"

definition half_shift :: "origin \<Rightarrow> point \<Rightarrow> point" where
  "half_shift og p =
     (case p of (x, y, z) \<Rightarrow> if og = NIFTI then (x + 1 / 2, y + 1 / 2, z + 1 / 2) else (x, y, z))"

text \<open>The streamlines of \<open>ex_skewed\<close> without any attribute.\<close>

definition ex_no_keys :: "(pyfloat list) tractogram" where
  "ex_no_keys =
     \<lparr>streamlines = [[(0, 0, 0), (1, 0, 0), (2, 0, 0), (3, 0, 0)]],
      data_per_streamline = Map.empty,
      data_per_point = Map.empty,
      space = RASMM, origin = NIFTI, dimensions = (4, 1, 1)\<rparr>"

text \<open>A tractogram without streamlines and without attributes.\<close>

definition ex_empty :: "(pyfloat list) tractogram" where
  "ex_empty =
     \<lparr>streamlines = [],
      data_per_streamline = Map.empty,
      data_per_point = Map.empty,
      space = RASMM, origin = NIFTI, dimensions = (2, 2, 2)\<rparr>"

section \<open>Properties of \<open>convert_dps_to_dpp\<close>\<close>

lemma length_broadcast: "length (broadcast vals sls) = min (length vals) (length sls)"
  by (simp add: broadcast_def)

lemma nth_broadcast:
  "i < length vals \<Longrightarrow> i < length sls \<Longrightarrow>
   broadcast vals sls ! i = replicate (length (sls ! i)) (vals ! i)"
  by (simp add: broadcast_def)

text \<open>
  Claim C1, as the code has it. For a tractogram that satisfies the invariant of the
  data model (one per-streamline value per streamline) and a key \<open>k\<close> of
  \<open>data_per_streamline\<close> that is not yet a key of \<open>data_per_point\<close> (or with the
  overwrite flag set), the call \<open>convert_dps_to_dpp(T, [k])\<close> returns normally; afterwards
  \<open>k\<close> is a key of \<open>data_per_point\<close>, its entry has one sequence per streamline, the
  sequence of streamline \<open>i\<close> has as many elements as the streamline has points, every
  element is the original per-streamline value of streamline \<open>i\<close>, and \<open>k\<close> is no
  longer a key of \<open>data_per_streamline\<close>.
\<close>

theorem convert_dps_to_dpp_single_key:
  assumes "data_per_streamline T k = Some vals"
    and "length vals = length (streamlines T)"
    and "data_per_point T k = None \<or> overwrite"
  shows "\<exists>T' d. convert_dps_to_dpp T [k] overwrite = (Inr (), T')
           \<and> streamlines T' = streamlines T
           \<and> data_per_streamline T' k = None
           \<and> data_per_point T' k = Some d
           \<and> length d = length (streamlines T)
           \<and> (\<forall>i < length (streamlines T).
                 length (d ! i) = length (streamlines T ! i)
                 \<and> (\<forall>j < length (streamlines T ! i). d ! i ! j = vals ! i))"
  using assms by (auto simp: length_broadcast nth_broadcast)

theorem convert_dps_to_dpp_single_key_witness:
  "\<exists>T' d. convert_dps_to_dpp ex_one_key [''a''] False = (Inr (), T')
           \<and> streamlines T' = streamlines ex_one_key
           \<and> data_per_streamline T' ''a'' = None
           \<and> data_per_point T' ''a'' = Some d
           \<and> length d = length (streamlines ex_one_key)
           \<and> (\<forall>i < length (streamlines ex_one_key).
                 length (d ! i) = length (streamlines ex_one_key ! i)
                 \<and> (\<forall>j < length (streamlines ex_one_key ! i). d ! i ! j = [7] ! i))"
  using convert_dps_to_dpp_single_key [of ex_one_key "''a''" "[7]" False]
  by (simp add: ex_one_key_def)

text \<open>
  Claim C1 as stated fails where the key is already a key of \<open>data_per_point\<close>: with
  the default \<open>overwrite=False\<close> the call raises the ``already existed'' error, the key
  stays in \<open>data_per_streamline\<close> and the per-point entry keeps its old values
  \<open>[1, 2]\<close>, which are not the per-streamline value \<open>7\<close>.
\<close>

theorem convert_dps_to_dpp_collision_counterexample:
  "data_per_streamline ex_collision ''k'' = Some [7]
   \<and> convert_dps_to_dpp ex_collision [''k''] False
       = (Inl (DppKeyExists ''k''), ex_collision)
   \<and> data_per_streamline (snd (convert_dps_to_dpp ex_collision [''k''] False)) ''k''
       \<noteq> None
   \<and> data_per_point (snd (convert_dps_to_dpp ex_collision [''k''] False)) ''k''
       = Some [[1, 2]]"
  by (simp add: ex_collision_def)







text \<open>
  Claim C7. A key that is both a per-streamline and a per-point key when its turn comes:
  without the overwrite flag the call raises the ``already existed'' error at that key
  and leaves the tractogram as it was; with the overwrite flag no error is raised for it,
  its per-point entry is replaced by the broadcast per-streamline values, and the loop
  goes on with the remaining keys.
\<close>

theorem convert_dps_to_dpp_collision:
  assumes "data_per_streamline sft k = Some vals"
    and "data_per_point sft k = Some old"
  shows "convert_dps_to_dpp sft (k # ks) False = (Inl (DppKeyExists k), sft)
       \<and> convert_dps_to_dpp sft (k # ks) True
           = convert_dps_to_dpp
               (sft\<lparr>data_per_point :=
                      (data_per_point sft)(k \<mapsto> broadcast vals (streamlines sft)),
                    data_per_streamline := (data_per_streamline sft)(k := None)\<rparr>) ks True
       \<and> (\<exists>sft'. convert_dps_to_dpp sft [k] True = (Inr (), sft')
             \<and> data_per_point sft' k = Some (broadcast vals (streamlines sft)))"
  using assms by simp

theorem convert_dps_to_dpp_collision_witness:
  "data_per_streamline ex_collision ''k'' = Some [7]
   \<and> data_per_point ex_collision ''k'' = Some [[1, 2]]
   \<and> convert_dps_to_dpp ex_collision [''k''] False = (Inl (DppKeyExists ''k''), ex_collision)
   \<and> (\<exists>sft'. convert_dps_to_dpp ex_collision [''k''] True = (Inr (), sft')
         \<and> data_per_point sft' ''k'' = Some [[7, 7]])"
proof -
  have h: "data_per_streamline ex_collision ''k'' = Some [7]"
    "data_per_point ex_collision ''k'' = Some [[1, 2]]"
    by (simp_all add: ex_collision_def)
  have b: "broadcast [7::int] (streamlines ex_collision) = [[7, 7]]"
    by (simp add: broadcast_def ex_collision_def)
  show ?thesis
    using h convert_dps_to_dpp_collision [OF h, of "[]"] by (simp add: b)
qed

section \<open>Properties of the operators and of the reductions\<close>

lemma ebind_Inr: "ebind (Inr x) f = f x"
  by (simp add: ebind_def)

lemma ebind_Inl: "ebind (Inl e) f = Inl e"
  by (simp add: ebind_def)

lemma py_index_first: "s \<noteq> [] \<Longrightarrow> py_index s 0 = Inr (hd s)"
  by (simp add: py_index_def norm_index_def ebind_def hd_conv_nth)

lemma py_index_last: "s \<noteq> [] \<Longrightarrow> py_index s (- 1) = Inr (last s)"
proof -
  assume h: "s \<noteq> []"
  then have "nat (int (length s) + - 1) = length s - 1" by (cases s) auto
  with h show ?thesis
    by (simp add: py_index_def norm_index_def ebind_def last_conv_nth Suc_le_eq)
qed

lemma py_index_Cons_0: "py_index (a # xs) 0 = Inr a"
  by (simp add: py_index_def norm_index_def ebind_def)

lemma py_index_Cons_1: "py_index (a # b # xs) 1 = Inr b"
  by (simp add: py_index_def norm_index_def ebind_def)

lemma mapM_cong: "(\<And>x. x \<in> set xs \<Longrightarrow> f x = g x) \<Longrightarrow> mapM f xs = mapM g xs"
  by (induction xs) auto

lemma mapM_Inr: "(\<And>x. x \<in> set xs \<Longrightarrow> f x = Inr (g x)) \<Longrightarrow> mapM f xs = Inr (map g xs)"
  by (induction xs) (auto simp: ebind_def)

lemma mapM_map_Inr:
  "(\<And>y. y \<in> set ys \<Longrightarrow> f (h y) = Inr (g y)) \<Longrightarrow> mapM f (map h ys) = Inr (map g ys)"
  by (induction ys) (auto simp: ebind_def)

lemma columns_rect:
  assumes "rows \<noteq> []" "\<forall>r \<in> set rows. length r = d"
  shows "columns rows = map (\<lambda>j. map (\<lambda>r. r ! j) rows) [0..<d]"
  using assms by (cases rows) (auto simp: columns_def)

lemma vmin_col:
  "rows \<noteq> [] \<Longrightarrow> vmin (map g rows) = Inr (foldl fmin (g (hd rows)) (map g (tl rows)))"
  by (cases rows) (auto simp: vmin_def)

lemma vmax_col:
  "rows \<noteq> [] \<Longrightarrow> vmax (map g rows) = Inr (foldl fmax (g (hd rows)) (map g (tl rows)))"
  by (cases rows) (auto simp: vmax_def)

lemma np_squeeze_single: "np_squeeze (Vector [x]) = Scalar x"
  by simp

text \<open>
  Claim C5. With \<open>endpoints_only=True\<close>, for per-point sequences that have a first and a
  last point, \<open>perform_operation_dpp_to_dps\<close> calls the named operator, per streamline, on
  the one vector made of the first point's vector followed by the last point's vector.
  For the per-point values \<open>1, 2, 3, 10\<close> and the operator \<open>mean\<close> the reduction over the
  whole sequence gives \<open>4\<close> and the endpoints-only reduction gives the mean \<open>5.5\<close> of
  \<open>[1, 10]\<close>: the two differ.
\<close>

theorem perform_operation_dpp_to_dps_endpoints:
  "(OPERATIONS op_name = Some call_op \<and> data_per_point sft dpp_name = Some d
      \<and> (\<forall>s \<in> set d. s \<noteq> []) \<longrightarrow>
      perform_operation_dpp_to_dps op_name sft dpp_name True
        = mapM (\<lambda>s. call1 call_op (Vector (hd s @ last s))) d)
   \<and> perform_operation_dpp_to_dps ''mean'' ex_skewed ''metric'' False = Inr [Scalar (Fin 4)]
   \<and> perform_operation_dpp_to_dps ''mean'' ex_skewed ''metric'' True
        = Inr [Scalar (Fin (11 / 2))]
   \<and> stream_mean (Vector [Fin 1, Fin 10]) = Inr (Scalar (Fin (11 / 2)))
   \<and> perform_operation_dpp_to_dps ''mean'' ex_skewed ''metric'' True
        \<noteq> perform_operation_dpp_to_dps ''mean'' ex_skewed ''metric'' False"
proof -
  have gen: "perform_operation_dpp_to_dps op_name sft dpp_name True
        = mapM (\<lambda>s. call1 call_op (Vector (hd s @ last s))) d"
    if "OPERATIONS op_name = Some call_op" "data_per_point sft dpp_name = Some d"
      "\<forall>s \<in> set d. s \<noteq> []"
    using that
    by (auto simp: perform_operation_dpp_to_dps_def lookup_def getitem_def entries_def
          ebind_def py_index_first py_index_last intro!: mapM_cong)
  have full: "perform_operation_dpp_to_dps ''mean'' ex_skewed ''metric'' False
        = Inr [Scalar (Fin 4)]"
    by (simp add: perform_operation_dpp_to_dps_def ex_skewed_def lookup_def getitem_def
          entries_def OPERATIONS_def
          ebind_def np_asarray_def stream_mean_def columns_def vmean_def fsum_def)
  have ends: "perform_operation_dpp_to_dps ''mean'' ex_skewed ''metric'' True
        = Inr [Scalar (Fin (11 / 2))]"
    by (simp add: perform_operation_dpp_to_dps_def ex_skewed_def lookup_def getitem_def
          entries_def OPERATIONS_def
          ebind_def py_index_def norm_index_def stream_mean_def columns_def vmean_def fsum_def)
  have m: "stream_mean (Vector [Fin 1, Fin 10]) = Inr (Scalar (Fin (11 / 2)))"
    by (simp add: stream_mean_def vmean_def fsum_def ebind_def)
  show ?thesis
    using gen full ends m by simp
qed

theorem perform_operation_dpp_to_dps_endpoints_witness:
  "OPERATIONS ''mean'' = Some (Op1 stream_mean)
   \<and> data_per_point ex_skewed ''metric'' = Some [[[Fin 1], [Fin 2], [Fin 3], [Fin 10]]]
   \<and> perform_operation_dpp_to_dps ''mean'' ex_skewed ''metric'' True
        = mapM (\<lambda>s. call1 (Op1 stream_mean) (Vector (hd s @ last s)))
            [[[Fin 1], [Fin 2], [Fin 3], [Fin 10]]]"
proof -
  have h: "OPERATIONS ''mean'' = Some (Op1 stream_mean)"
    "data_per_point ex_skewed ''metric'' = Some [[[Fin 1], [Fin 2], [Fin 3], [Fin 10]]]"
    "\<forall>s \<in> set [[[Fin 1], [Fin 2], [Fin 3], [Fin 10]]]. s \<noteq> []"
    by (simp_all add: OPERATIONS_def ex_skewed_def)
  show ?thesis
    using h perform_operation_dpp_to_dps_endpoints
      [of "''mean''" "Op1 stream_mean" ex_skewed "''metric''"
          "[[[Fin 1], [Fin 2], [Fin 3], [Fin 10]]]"]
    by blast
qed

text \<open>
  Claim C6. The registry has exactly the five names \<open>mean\<close>, \<open>sum\<close>, \<open>min\<close>, \<open>max\<close> and
  \<open>correlation\<close>. On a matrix the first four reduce along axis 0, column by column, and
  squeeze the result; a result of one element is squeezed to a scalar, so a single row
  of one value gives that value as a scalar and not as an array of length one. On
  \<open>[[1, 2], [3, 4]]\<close> they give \<open>[2, 3]\<close>, \<open>[4, 6]\<close>, \<open>[1, 2]\<close> and \<open>[3, 4]\<close>.
  \<open>correlation\<close> of two sequences of equal length is the two by two matrix of their
  Pearson correlation coefficients; for \<open>[1, 2, 3]\<close> with itself every entry, and so the
  off-diagonal entry \<open>[0, 1]\<close>, is \<open>1\<close>.
\<close>

theorem operations_registry:
  "dom OPERATIONS = {''mean'', ''sum'', ''min'', ''max'', ''correlation''}
   \<and> OPERATIONS ''mean'' = Some (Op1 stream_mean)
   \<and> OPERATIONS ''sum'' = Some (Op1 stream_sum)
   \<and> OPERATIONS ''min'' = Some (Op1 stream_min)
   \<and> OPERATIONS ''max'' = Some (Op1 stream_max)
   \<and> OPERATIONS ''correlation'' = Some (Op2 stream_correlation)
   \<and> (rows \<noteq> [] \<and> (\<forall>r \<in> set rows. length r = d) \<longrightarrow>
        stream_mean (Matrix rows)
          = Inr (np_squeeze (Vector (map (\<lambda>j. fdiv (fsum (map (\<lambda>r. r ! j) rows))
                                                (Fin (real (length rows)))) [0..<d])))
        \<and> stream_sum (Matrix rows)
          = Inr (np_squeeze (Vector (map (\<lambda>j. fsum (map (\<lambda>r. r ! j) rows)) [0..<d])))
        \<and> stream_min (Matrix rows)
          = Inr (np_squeeze (Vector (map (\<lambda>j. foldl fmin (hd rows ! j)
                                                (map (\<lambda>r. r ! j) (tl rows))) [0..<d])))
        \<and> stream_max (Matrix rows)
          = Inr (np_squeeze (Vector (map (\<lambda>j. foldl fmax (hd rows ! j)
                                                (map (\<lambda>r. r ! j) (tl rows))) [0..<d]))))
   \<and> np_squeeze (Vector [x]) = Scalar x
   \<and> stream_mean (Matrix [[x]]) = Inr (Scalar x)
   \<and> stream_sum (Matrix [[x]]) = Inr (Scalar x)
   \<and> stream_min (Matrix [[x]]) = Inr (Scalar x)
   \<and> stream_max (Matrix [[x]]) = Inr (Scalar x)
   \<and> stream_mean (Matrix [[Fin 1, Fin 2], [Fin 3, Fin 4]]) = Inr (Vector [Fin 2, Fin 3])
   \<and> stream_sum (Matrix [[Fin 1, Fin 2], [Fin 3, Fin 4]]) = Inr (Vector [Fin 4, Fin 6])
   \<and> stream_min (Matrix [[Fin 1, Fin 2], [Fin 3, Fin 4]]) = Inr (Vector [Fin 1, Fin 2])
   \<and> stream_max (Matrix [[Fin 1, Fin 2], [Fin 3, Fin 4]]) = Inr (Vector [Fin 3, Fin 4])
   \<and> (length u = length v \<longrightarrow>
        stream_correlation (Vector u) (Vector v)
          = Inr (Matrix [[corr u u, corr u v], [corr v u, corr v v]]))
   \<and> stream_correlation (Vector [Fin 1, Fin 2, Fin 3]) (Vector [Fin 1, Fin 2, Fin 3])
        = Inr (Matrix [[Fin 1, Fin 1], [Fin 1, Fin 1]])
   \<and> ebind (stream_correlation (Vector [Fin 1, Fin 2, Fin 3]) (Vector [Fin 1, Fin 2, Fin 3]))
        (\<lambda>r. np_index2 r 0 1) = Inr (Fin 1)"
proof -
  have reg: "dom OPERATIONS = {''mean'', ''sum'', ''min'', ''max'', ''correlation''}"
    by (auto simp: OPERATIONS_def dom_map_of_conv_image_fst)
  have names: "OPERATIONS ''mean'' = Some (Op1 stream_mean)"
    "OPERATIONS ''sum'' = Some (Op1 stream_sum)"
    "OPERATIONS ''min'' = Some (Op1 stream_min)"
    "OPERATIONS ''max'' = Some (Op1 stream_max)"
    "OPERATIONS ''correlation'' = Some (Op2 stream_correlation)"
    by (simp_all add: OPERATIONS_def)
  have gen: "stream_mean (Matrix rows)
          = Inr (np_squeeze (Vector (map (\<lambda>j. fdiv (fsum (map (\<lambda>r. r ! j) rows))
                                                (Fin (real (length rows)))) [0..<d])))
        \<and> stream_sum (Matrix rows)
          = Inr (np_squeeze (Vector (map (\<lambda>j. fsum (map (\<lambda>r. r ! j) rows)) [0..<d])))
        \<and> stream_min (Matrix rows)
          = Inr (np_squeeze (Vector (map (\<lambda>j. foldl fmin (hd rows ! j)
                                                (map (\<lambda>r. r ! j) (tl rows))) [0..<d])))
        \<and> stream_max (Matrix rows)
          = Inr (np_squeeze (Vector (map (\<lambda>j. foldl fmax (hd rows ! j)
                                                (map (\<lambda>r. r ! j) (tl rows))) [0..<d])))"
    if h: "rows \<noteq> []" "\<forall>r \<in> set rows. length r = d"
  proof -
    have c: "columns rows = map (\<lambda>j. map (\<lambda>r. r ! j) rows) [0..<d]"
      using h by (rule columns_rect)
    have m1: "mapM vmean (columns rows)
                = Inr (map (\<lambda>j. fdiv (fsum (map (\<lambda>r. r ! j) rows))
                                   (Fin (real (length rows)))) [0..<d])"
      unfolding c by (rule mapM_map_Inr) (simp add: vmean_def)
    have m2: "mapM vsum (columns rows) = Inr (map (\<lambda>j. fsum (map (\<lambda>r. r ! j) rows)) [0..<d])"
      unfolding c by (rule mapM_map_Inr) (simp add: vsum_def)
    have m3: "mapM vmin (columns rows)
                = Inr (map (\<lambda>j. foldl fmin (hd rows ! j) (map (\<lambda>r. r ! j) (tl rows))) [0..<d])"
      unfolding c using h(1) by (intro mapM_map_Inr) (simp add: vmin_col hd_map)
    have m4: "mapM vmax (columns rows)
                = Inr (map (\<lambda>j. foldl fmax (hd rows ! j) (map (\<lambda>r. r ! j) (tl rows))) [0..<d])"
      unfolding c using h(1) by (intro mapM_map_Inr) (simp add: vmax_col hd_map)
    show ?thesis
      by (simp add: stream_mean_def stream_sum_def stream_min_def stream_max_def
            m1 m2 m3 m4 ebind_def)
  qed
  have one: "stream_mean (Matrix [[x]]) = Inr (Scalar x)"
    "stream_sum (Matrix [[x]]) = Inr (Scalar x)"
    "stream_min (Matrix [[x]]) = Inr (Scalar x)"
    "stream_max (Matrix [[x]]) = Inr (Scalar x)"
    by (cases x; simp add: stream_mean_def stream_sum_def stream_min_def stream_max_def
          columns_def vmean_def vsum_def vmin_def vmax_def fsum_def ebind_def)+
  have ex: "stream_mean (Matrix [[Fin 1, Fin 2], [Fin 3, Fin 4]]) = Inr (Vector [Fin 2, Fin 3])"
    "stream_sum (Matrix [[Fin 1, Fin 2], [Fin 3, Fin 4]]) = Inr (Vector [Fin 4, Fin 6])"
    "stream_min (Matrix [[Fin 1, Fin 2], [Fin 3, Fin 4]]) = Inr (Vector [Fin 1, Fin 2])"
    "stream_max (Matrix [[Fin 1, Fin 2], [Fin 3, Fin 4]]) = Inr (Vector [Fin 3, Fin 4])"
    by (simp_all add: stream_mean_def stream_sum_def stream_min_def stream_max_def
          columns_def vmean_def vsum_def vmin_def vmax_def fsum_def ebind_def upt_rec)
  have cg: "stream_correlation (Vector u) (Vector v)
          = Inr (Matrix [[corr u u, corr u v], [corr v u, corr v v]])" if "length u = length v"
    using that by (simp add: stream_correlation_def np_corrcoef_def)
  have c1: "stream_correlation (Vector [Fin 1, Fin 2, Fin 3]) (Vector [Fin 1, Fin 2, Fin 3])
        = Inr (Matrix [[Fin 1, Fin 1], [Fin 1, Fin 1]])"
    by (simp add: stream_correlation_def np_corrcoef_def corr_def cov_def fsum_def)
  have c2: "ebind (stream_correlation (Vector [Fin 1, Fin 2, Fin 3])
                     (Vector [Fin 1, Fin 2, Fin 3]))
        (\<lambda>r. np_index2 r 0 1) = Inr (Fin 1)"
    unfolding c1 by (simp add: ebind_def py_index_def norm_index_def)
  have gen': "rows \<noteq> [] \<and> (\<forall>r \<in> set rows. length r = d) \<longrightarrow>
        stream_mean (Matrix rows)
          = Inr (np_squeeze (Vector (map (\<lambda>j. fdiv (fsum (map (\<lambda>r. r ! j) rows))
                                                (Fin (real (length rows)))) [0..<d])))
        \<and> stream_sum (Matrix rows)
          = Inr (np_squeeze (Vector (map (\<lambda>j. fsum (map (\<lambda>r. r ! j) rows)) [0..<d])))
        \<and> stream_min (Matrix rows)
          = Inr (np_squeeze (Vector (map (\<lambda>j. foldl fmin (hd rows ! j)
                                                (map (\<lambda>r. r ! j) (tl rows))) [0..<d])))
        \<and> stream_max (Matrix rows)
          = Inr (np_squeeze (Vector (map (\<lambda>j. foldl fmax (hd rows ! j)
                                                (map (\<lambda>r. r ! j) (tl rows))) [0..<d])))"
    using gen by blast
  have cg': "length u = length v \<longrightarrow>
        stream_correlation (Vector u) (Vector v)
          = Inr (Matrix [[corr u u, corr u v], [corr v u, corr v v]])"
    using cg by blast
  show ?thesis
    by (intro conjI; (rule reg names gen' one ex cg' c1 c2 np_squeeze_single))
qed

theorem operations_registry_witness:
  "[[Fin 1, Fin 2], [Fin 3, Fin 4]] \<noteq> []
   \<and> list_all (\<lambda>r. length r = 2) [[Fin 1, Fin 2], [Fin 3, Fin 4]]
   \<and> length [Fin 1, Fin 2, Fin 3] = length [Fin 3, Fin 2, Fin 1]
   \<and> stream_mean (Matrix [[Fin 1, Fin 2], [Fin 3, Fin 4]])
       = Inr (np_squeeze (Vector (map (\<lambda>j. fdiv (fsum (map (\<lambda>r. r ! j)
                                                       [[Fin 1, Fin 2], [Fin 3, Fin 4]]))
                                             (Fin (real (length [[Fin 1, Fin 2], [Fin 3, Fin 4]]))))
                                    [0..<2])))
   \<and> stream_correlation (Vector [Fin 1, Fin 2, Fin 3]) (Vector [Fin 3, Fin 2, Fin 1])
       = Inr (Matrix [[corr [Fin 1, Fin 2, Fin 3] [Fin 1, Fin 2, Fin 3],
                       corr [Fin 1, Fin 2, Fin 3] [Fin 3, Fin 2, Fin 1]],
                      [corr [Fin 3, Fin 2, Fin 1] [Fin 1, Fin 2, Fin 3],
                       corr [Fin 3, Fin 2, Fin 1] [Fin 3, Fin 2, Fin 1]]])"
proof -
  have h: "[[Fin 1, Fin 2], [Fin 3, Fin 4]] \<noteq> []
           \<and> (\<forall>r \<in> set [[Fin 1, Fin 2], [Fin 3, Fin 4]]. length r = 2)"
    "length [Fin 1, Fin 2, Fin 3] = length [Fin 3, Fin 2, Fin 1]"
    by simp_all
  show ?thesis
    using h operations_registry
      [of "[[Fin 1, Fin 2], [Fin 3, Fin 4]]" 2 NaN "[Fin 1, Fin 2, Fin 3]"
          "[Fin 3, Fin 2, Fin 1]"]
    by (simp add: list_all_iff)
qed

text \<open>
  Claim C8, as the code has it. Given a per-point key, for \<open>mean\<close>, \<open>sum\<close>, \<open>min\<close> and
  \<open>max\<close> on a tractogram whose first streamline has a point,
  \<open>perform_pairwise_streamline_operation_on_endpoints\<close> fails, and it fails at the call
  of the operator: these operators take one argument, so the call with two arguments
  raises \<open>TypeError\<close> and no result is ever indexed. For \<open>correlation\<close>, on streamlines
  that have a first and a last point of one width, the call returns per streamline the
  entry \<open>[0, 1]\<close> of the two by two correlation matrix of the first and the last point's
  vectors.
\<close>

theorem perform_pairwise_streamline_operation:
  assumes "data_per_point sft dpp_name = Some d"
  shows "(op_name \<in> {''mean'', ''sum'', ''min'', ''max''} \<and> d \<noteq> [] \<and> hd d \<noteq> [] \<longrightarrow>
           (\<exists>f. OPERATIONS op_name = Some f
                \<and> call2 f (Vector (hd (hd d))) (Vector (last (hd d))) = Inl TypeError)
           \<and> perform_pairwise_streamline_operation_on_endpoints op_name sft dpp_name
               = Inl TypeError)
       \<and> ((\<forall>s \<in> set d. s \<noteq> [] \<and> length (hd s) = length (last s)) \<longrightarrow>
           perform_pairwise_streamline_operation_on_endpoints ''correlation'' sft dpp_name
               = Inr (map (\<lambda>s. corr (hd s) (last s)) d)
           \<and> (\<forall>s \<in> set d. stream_correlation (Vector (hd s)) (Vector (last s))
                 = Inr (Matrix [[corr (hd s) (hd s), corr (hd s) (last s)],
                                [corr (last s) (hd s), corr (last s) (last s)]])))"
proof (intro conjI impI)
  assume h: "op_name \<in> {''mean'', ''sum'', ''min'', ''max''} \<and> d \<noteq> [] \<and> hd d \<noteq> []"
  then obtain g where g: "OPERATIONS op_name = Some (Op1 g)"
    by (auto simp: OPERATIONS_def)
  then show "\<exists>f. OPERATIONS op_name = Some f
                \<and> call2 f (Vector (hd (hd d))) (Vector (last (hd d))) = Inl TypeError"
    by simp
  from h obtain s rest where d: "d = s # rest" "s \<noteq> []" by (cases d) auto
  show "perform_pairwise_streamline_operation_on_endpoints op_name sft dpp_name = Inl TypeError"
    using assms g d
    by (simp add: perform_pairwise_streamline_operation_on_endpoints_def lookup_def getitem_def
          entries_def ebind_def
          py_index_first py_index_last)
next
  assume h: "\<forall>s \<in> set d. s \<noteq> [] \<and> length (hd s) = length (last s)"
  have op: "OPERATIONS ''correlation'' = Some (Op2 stream_correlation)"
    by (simp add: OPERATIONS_def)
  have body: "ebind (py_index s 0) (\<lambda>p1.
                 ebind (py_index s (- 1)) (\<lambda>p2.
                 ebind (stream_correlation (Vector p1) (Vector p2)) (\<lambda>r.
                   np_index2 r 0 1))) = Inr (corr (hd s) (last s))" if "s \<in> set d" for s
    using h that
    by (simp add: py_index_first py_index_last ebind_def stream_correlation_def np_corrcoef_def
          py_index_Cons_0 py_index_Cons_1)
  show "perform_pairwise_streamline_operation_on_endpoints ''correlation'' sft dpp_name
               = Inr (map (\<lambda>s. corr (hd s) (last s)) d)"
    using assms op
    by (simp add: perform_pairwise_streamline_operation_on_endpoints_def lookup_def getitem_def
          entries_def ebind_Inr
          mapM_Inr [OF body])
  show "\<forall>s \<in> set d. stream_correlation (Vector (hd s)) (Vector (last s))
                 = Inr (Matrix [[corr (hd s) (hd s), corr (hd s) (last s)],
                                [corr (last s) (hd s), corr (last s) (last s)]])"
    using h by (simp add: stream_correlation_def np_corrcoef_def)
qed

theorem perform_pairwise_streamline_operation_witness:
  "data_per_point ex_vectors ''metric''
     = Some [[[Fin 1, Fin 2, Fin 3], [Fin 5, Fin 5, Fin 5], [Fin 2, Fin 4, Fin 6]]]
   \<and> perform_pairwise_streamline_operation_on_endpoints ''sum'' ex_vectors ''metric''
       = Inl TypeError
   \<and> perform_pairwise_streamline_operation_on_endpoints ''correlation'' ex_vectors ''metric''
       = Inr [Fin 1]"
proof -
  let ?d = "[[[Fin 1, Fin 2, Fin 3], [Fin 5, Fin 5, Fin 5], [Fin 2, Fin 4, Fin 6]]]"
  have h: "data_per_point ex_vectors ''metric'' = Some ?d"
    by (simp add: ex_vectors_def)
  have h1: "''sum'' \<in> {''mean'', ''sum'', ''min'', ''max''} \<and> ?d \<noteq> [] \<and> hd ?d \<noteq> []"
    by simp
  have h2: "\<forall>s \<in> set ?d. s \<noteq> [] \<and> length (hd s) = length (last s)"
    by simp
  have c: "corr [Fin 1, Fin 2, Fin 3] [Fin 2, Fin 4, Fin 6] = Fin 1"
    by (simp add: corr_def cov_def fsum_def)
  show ?thesis
    using h h1 h2 perform_pairwise_streamline_operation [OF h, of "''sum''"]
    by (simp add: c)
qed

text \<open>
  Claim C8 as stated fails in where the failure occurs: \<open>mean\<close> is registered as a
  function of one argument, so the call with the two endpoint vectors does not succeed;
  it raises \<open>TypeError\<close>, which is the error of the whole call, and not the \<open>IndexError\<close>
  of indexing a result.
\<close>

theorem perform_pairwise_streamline_operation_counterexample:
  "OPERATIONS ''mean'' = Some (Op1 stream_mean)
   \<and> call2 (Op1 stream_mean) (Vector [Fin 1]) (Vector [Fin 10]) = Inl TypeError
   \<and> perform_pairwise_streamline_operation_on_endpoints ''mean'' ex_skewed ''metric''
        = Inl TypeError
   \<and> TypeError \<noteq> IndexError"
  by (simp add: OPERATIONS_def perform_pairwise_streamline_operation_on_endpoints_def
        ex_skewed_def lookup_def getitem_def entries_def ebind_def py_index_def norm_index_def)

section \<open>Properties of \<open>project_map_to_streamlines\<close>\<close>

lemma value_at_eq:
  "value_at w p = (get_value_at_coordinate (snd w) (fst p) (fst (snd p)) (snd (snd p))
                     (space (fst w)) (origin (fst w)), w)"
  by (cases p) (simp add: value_at_def)

lemma sample_points_eq: "sample_points w ps = (map (\<lambda>p. fst (value_at w p)) ps, w)"
  by (induction ps) (simp_all add: value_at_eq)

lemma project_endpoints_world: "snd (project_endpoints d w s) = w"
  by (simp add: project_endpoints_def value_at_eq split: sum.splits)

lemma project_all_points_world: "snd (project_all_points d w s) = w"
  by (simp add: project_all_points_def sample_points_eq)

lemma for_streamlines_world:
  assumes "\<And>w s. snd (body w s) = w"
  shows "snd (for_streamlines body w ss) = w"
proof (induction ss arbitrary: w)
  case Nil
  show ?case by simp
next
  case (Cons s ss)
  show ?case
    using assms [of w s] Cons.IH [of w]
    by (auto split: prod.splits sum.splits)
qed

lemma for_streamlines_length:
  "for_streamlines body w ss = (Inr res, w') \<Longrightarrow> length res = length ss"
proof (induction ss arbitrary: w res w')
  case Nil
  then show ?case by simp
next
  case (Cons s ss)
  from Cons.prems obtain a w1 as where
    "body w s = (Inr a, w1)" "for_streamlines body w1 ss = (Inr as, w')" "res = a # as"
    by (auto split: prod.splits sum.splits)
  then show ?case using Cons.IH by auto
qed

lemma for_streamlines_Inr:
  assumes "\<And>s. s \<in> set ss \<Longrightarrow> body w s = (Inr (g s), w)"
  shows "for_streamlines body w ss = (Inr (map g ss), w)"
  using assms by (induction ss) auto

text \<open>
  Claim C9. Whatever its arguments and whatever its outcome (a list of arrays or an
  exception), \<open>project_map_to_streamlines\<close> leaves the tractogram (streamlines, both
  attribute dictionaries, space, origin, dimensions) and the map as they were; the
  sampled values are only in the returned list, which has one array per streamline.
\<close>

theorem project_map_to_streamlines_frame:
  "snd (project_map_to_streamlines sft map_volume endpoints_only) = (sft, map_volume)
   \<and> (\<forall>res. fst (project_map_to_streamlines sft map_volume endpoints_only) = Inr res
         \<longrightarrow> length res = length (streamlines sft))"
proof -
  have frame: "snd (project_map_to_streamlines sft map_volume endpoints_only) = (sft, map_volume)"
    by (simp add: project_map_to_streamlines_def Let_def for_streamlines_world
          project_endpoints_world project_all_points_world)
  have len: "length res = length (streamlines sft)"
    if "fst (project_map_to_streamlines sft map_volume endpoints_only) = Inr res" for res
  proof -
    obtain r w' where rw: "project_map_to_streamlines sft map_volume endpoints_only = (r, w')"
      by (cases "project_map_to_streamlines sft map_volume endpoints_only")
    with that have "r = Inr res" by simp
    with rw show ?thesis
      by (auto simp: project_map_to_streamlines_def Let_def split: if_splits
            dest: for_streamlines_length)
  qed
  show ?thesis using frame len by blast
qed

theorem project_map_to_streamlines_frame_witness:
  "snd (project_map_to_streamlines ex_one_key ex_volume False) = (ex_one_key, ex_volume)
   \<and> fst (project_map_to_streamlines ex_one_key ex_volume False)
       = Inr [[[Fin 0], [Fin 1], [Fin 2]]]
   \<and> length [[[Fin 0], [Fin 1], [Fin (2::real)]]] = length (streamlines ex_one_key)"
proof -
  have run: "fst (project_map_to_streamlines ex_one_key ex_volume False)
       = Inr [[[Fin 0], [Fin 1], [Fin 2]]]"
    by (simp add: project_map_to_streamlines_def dimension_of_def project_all_points_def
        ex_one_key_def ex_volume_def value_at_def np_reshape_def upt_rec)
  show ?thesis
    using run project_map_to_streamlines_frame [of ex_one_key ex_volume False] by simp
qed

lemma fits_broadcast:
  assumes "sample_fits (data_shape V) a"
  shows "np_broadcast_row (dimension_of V) a = Inr (flat_of a)
         \<and> length (flat_of a) = dimension_of V"
  using assms by (cases a) (auto simp: dimension_of_def broadcast_vector_def)

lemma norm_index_0: "0 < n \<Longrightarrow> norm_index n 0 = Inr 0"
  by (simp add: norm_index_def)

lemma norm_index_m1: "0 < n \<Longrightarrow> norm_index n (- 1) = Inr (n - 1)"
  by (auto simp: norm_index_def nat_diff_distrib')

lemma project_endpoints_ok:
  assumes s: "s \<noteq> []"
    and fits: "\<forall>x y z sp og. sample_fits (data_shape V) (get_value_at_coordinate V x y z sp og)"
  shows "project_endpoints (dimension_of V) (sft, V) s
           = (Inr ((replicate (length s) (replicate (dimension_of V) NaN))
                     [0 := flat_of (fst (value_at (sft, V) (hd s))),
                      length s - 1 := flat_of (fst (value_at (sft, V) (last s)))]),
              (sft, V))"
proof -
  let ?a = "fst (value_at (sft, V) (hd s))" and ?b = "fst (value_at (sft, V) (last s))"
  let ?n = "length s" and ?d = "dimension_of V"
  have n: "0 < ?n" using s by simp
  have fa: "np_broadcast_row ?d ?a = Inr (flat_of ?a)" "length (flat_of ?a) = ?d"
    using fits fits_broadcast by (simp_all add: value_at_eq)
  have fb: "np_broadcast_row ?d ?b = Inr (flat_of ?b)" "length (flat_of ?b) = ?d"
    using fits fits_broadcast by (simp_all add: value_at_eq)
  have s1: "np_set_row (replicate ?n (replicate ?d NaN)) 0 ?a
              = Inr ((replicate ?n (replicate ?d NaN))[0 := flat_of ?a])"
    using n fa by (simp add: np_set_row_def norm_index_0 ebind_def)
  have len: "length (((replicate ?n (replicate ?d NaN))[0 := flat_of ?a]) ! (?n - 1)) = ?d"
    using n fa by (cases "?n - 1 = 0") (simp_all add: nth_list_update)
  have s2: "np_set_row ((replicate ?n (replicate ?d NaN))[0 := flat_of ?a]) (- 1) ?b
              = Inr ((replicate ?n (replicate ?d NaN))[0 := flat_of ?a, ?n - 1 := flat_of ?b])"
    using n fb len by (simp add: np_set_row_def norm_index_m1 ebind_def)
  show ?thesis
    using s s1 s2
    by (simp add: project_endpoints_def py_index_first py_index_last ebind_def value_at_eq)
qed

text \<open>
  A streamline without points has no first point: the loop body raises \<open>IndexError\<close>
  for it, before anything is sampled.
\<close>

lemma project_endpoints_empty: "project_endpoints d w [] = (Inl IndexError, w)"
  by (simp add: project_endpoints_def py_index_def norm_index_def ebind_def)

text \<open>
  Claim C4. For a map whose samples agree with its shape and a tractogram whose
  streamlines all have a first and a last point, \<open>project_map_to_streamlines\<close> with
  \<open>endpoints_only=True\<close> returns one array per streamline, of as many rows as the
  streamline has points and of \<open>dimension\<close> values per row. Row \<open>0\<close> holds the values of
  the map sampled at the first point and row \<open>-1\<close> those sampled at the last point (so
  they are free of \<open>NaN\<close> when the sampled values are), and every row strictly between
  them, which exist from three points on, is \<open>NaN\<close> in every channel.
\<close>

theorem project_map_to_streamlines_endpoints:
  assumes fits: "\<forall>x y z sp og. sample_fits (data_shape V) (get_value_at_coordinate V x y z sp og)"
    and nonempty: "\<forall>s \<in> set (streamlines sft). s \<noteq> []"
  shows "\<exists>res. project_map_to_streamlines sft V True = (Inr res, (sft, V))
     \<and> length res = length (streamlines sft)
     \<and> (\<forall>i < length (streamlines sft).
           length (res ! i) = length (streamlines sft ! i)
         \<and> (\<forall>row \<in> set (res ! i). length row = dimension_of V)
         \<and> res ! i ! 0 = flat_of (fst (value_at (sft, V) (hd (streamlines sft ! i))))
         \<and> last (res ! i) = flat_of (fst (value_at (sft, V) (last (streamlines sft ! i))))
         \<and> (\<forall>j. 0 < j \<and> j + 1 < length (streamlines sft ! i)
                \<longrightarrow> res ! i ! j = replicate (dimension_of V) NaN))"
proof -
  define g where "g = (\<lambda>s. (replicate (length s) (replicate (dimension_of V) NaN))
                     [0 := flat_of (fst (value_at (sft, V) (hd s))),
                      length s - 1 := flat_of (fst (value_at (sft, V) (last s)))])"
  have body: "project_endpoints (dimension_of V) (sft, V) s = (Inr (g s), (sft, V))"
    if "s \<in> set (streamlines sft)" for s
    unfolding g_def using that nonempty project_endpoints_ok [OF _ fits, of s sft] by blast
  have run: "project_map_to_streamlines sft V True = (Inr (map g (streamlines sft)), (sft, V))"
    unfolding project_map_to_streamlines_def Let_def
    using for_streamlines_Inr
      [of "streamlines sft" "project_endpoints (dimension_of V)" "(sft, V)" g, OF body]
    by simp
  have props: "length (g s) = length s
         \<and> (\<forall>row \<in> set (g s). length row = dimension_of V)
         \<and> g s ! 0 = flat_of (fst (value_at (sft, V) (hd s)))
         \<and> last (g s) = flat_of (fst (value_at (sft, V) (last s)))
         \<and> (\<forall>j. 0 < j \<and> j + 1 < length s \<longrightarrow> g s ! j = replicate (dimension_of V) NaN)"
    if s: "s \<noteq> []" for s
  proof -
    have n: "0 < length s" using s by simp
    have la: "length (flat_of (fst (value_at (sft, V) (hd s)))) = dimension_of V"
      and lb: "length (flat_of (fst (value_at (sft, V) (last s)))) = dimension_of V"
      using fits fits_broadcast by (simp_all add: value_at_eq)
    have one: "hd s = last s" if "length s = 1"
      using that by (cases s) auto
    have p1: "length (g s) = length s" by (simp add: g_def)
    have p2: "\<forall>row \<in> set (g s). length row = dimension_of V"
    proof
      fix row assume "row \<in> set (g s)"
      then obtain k where k: "k < length s" "row = g s ! k"
        by (auto simp: in_set_conv_nth g_def)
      then show "length row = dimension_of V"
        using la lb by (cases "k = 0") (auto simp: nth_list_update g_def)
    qed
    have p3: "g s ! 0 = flat_of (fst (value_at (sft, V) (hd s)))"
    proof (cases "length s = 1")
      case True
      then show ?thesis using one by (simp add: g_def)
    next
      case False
      with s have "length s - 1 \<noteq> 0" by (cases s) auto
      then show ?thesis using n by (simp add: nth_list_update g_def)
    qed
    have p4: "last (g s) = flat_of (fst (value_at (sft, V) (last s)))"
      using n by (simp add: last_conv_nth g_def)
    have p5: "\<forall>j. 0 < j \<and> j + 1 < length s \<longrightarrow> g s ! j = replicate (dimension_of V) NaN"
      by (auto simp: nth_list_update g_def)
    show ?thesis using p1 p2 p3 p4 p5 by blast
  qed
  have each: "length (map g (streamlines sft) ! i) = length (streamlines sft ! i)
         \<and> (\<forall>row \<in> set (map g (streamlines sft) ! i). length row = dimension_of V)
         \<and> map g (streamlines sft) ! i ! 0
             = flat_of (fst (value_at (sft, V) (hd (streamlines sft ! i))))
         \<and> last (map g (streamlines sft) ! i)
             = flat_of (fst (value_at (sft, V) (last (streamlines sft ! i))))
         \<and> (\<forall>j. 0 < j \<and> j + 1 < length (streamlines sft ! i)
                \<longrightarrow> map g (streamlines sft) ! i ! j = replicate (dimension_of V) NaN)"
    if i: "i < length (streamlines sft)" for i
  proof -
    have "streamlines sft ! i \<noteq> []" using nonempty i nth_mem by blast
    from props [OF this] show ?thesis using i by simp
  qed
  show ?thesis
    using run each by (intro exI [of _ "map g (streamlines sft)"]) simp
qed

theorem project_map_to_streamlines_endpoints_witness:
  "project_map_to_streamlines ex_one_key ex_volume True
       = (Inr [[[Fin 0], [NaN], [Fin 2]]], (ex_one_key, ex_volume))
   \<and> (\<exists>res. project_map_to_streamlines ex_one_key ex_volume True
                = (Inr res, (ex_one_key, ex_volume))
     \<and> length res = length (streamlines ex_one_key)
     \<and> (\<forall>i < length (streamlines ex_one_key).
           length (res ! i) = length (streamlines ex_one_key ! i)
         \<and> (\<forall>row \<in> set (res ! i). length row = dimension_of ex_volume)
         \<and> res ! i ! 0
             = flat_of (fst (value_at (ex_one_key, ex_volume) (hd (streamlines ex_one_key ! i))))
         \<and> last (res ! i)
             = flat_of (fst (value_at (ex_one_key, ex_volume)
                               (last (streamlines ex_one_key ! i))))
         \<and> (\<forall>j. 0 < j \<and> j + 1 < length (streamlines ex_one_key ! i)
                \<longrightarrow> res ! i ! j = replicate (dimension_of ex_volume) NaN)))"
proof -
  have fits: "\<forall>x y z sp og.
      sample_fits (data_shape ex_volume) (get_value_at_coordinate ex_volume x y z sp og)"
    by (simp add: ex_volume_def)
  have nonempty: "\<forall>s \<in> set (streamlines ex_one_key). s \<noteq> []"
    by (simp add: ex_one_key_def)
  have run: "project_map_to_streamlines ex_one_key ex_volume True
       = (Inr [[[Fin 0], [NaN], [Fin 2]]], (ex_one_key, ex_volume))"
    by (simp add: project_map_to_streamlines_def dimension_of_def project_endpoints_def
        ex_one_key_def ex_volume_def py_index_def norm_index_def ebind_def value_at_def
        np_set_row_def)
  show ?thesis
    using run project_map_to_streamlines_endpoints [OF fits nonempty] by blast
qed

section \<open>Properties of \<open>project_dpp_to_map\<close>\<close>

lemma accumulate_Inr:
  assumes "accumulate sft k s p (c, m) = Inr (c', m')"
  shows "\<exists>v x. ebind (py_index (streamlines sft ! s) p) (voxel_of (dimensions sft)) = Inr v
            \<and> c' = c(v := c v + 1) \<and> m' = m(v := fadd (m v) x)"
  using assms by (auto simp: accumulate_def ebind_def split: sum.splits)

lemma accumulate_Inl:
  assumes "ebind (py_index (streamlines sft ! s) p) (voxel_of (dimensions sft)) = Inl e"
  shows "accumulate sft k s p st = Inl e"
  using assms by (cases st) (auto simp: accumulate_def ebind_def split: sum.splits)

lemma accumulate_missing:
  assumes "data_per_point sft k = None"
    and "ebind (py_index (streamlines sft ! s) p) (voxel_of (dimensions sft)) = Inr v"
  shows "accumulate sft k s p st
           = Inl (if data_per_point sft = Map.empty then ValueError else KeyError k)"
  using assms
  by (cases st)
     (auto simp: accumulate_def ebind_def getitem_def item_index_def entries_def as_scalar_def
           split: sum.splits)

lemma inner_inv:
  assumes "foldM (accumulate sft k s) ps (c0, m0) = Inr (c, m)"
  shows "(\<forall>v. c v = c0 v + count_list (visits_of sft s ps) (Inr v))
       \<and> ((\<forall>v. c0 v = 0 \<longrightarrow> m0 v = Fin 0) \<longrightarrow> (\<forall>v. c v = 0 \<longrightarrow> m v = Fin 0))"
  using assms
proof (induction ps arbitrary: c0 m0)
  case Nil
  then show ?case by (simp add: visits_of_def)
next
  case (Cons p ps)
  from Cons.prems obtain c1 m1 where
    step: "accumulate sft k s p (c0, m0) = Inr (c1, m1)"
    and rest: "foldM (accumulate sft k s) ps (c1, m1) = Inr (c, m)"
    by (auto simp: ebind_def split: sum.splits)
  from accumulate_Inr [OF step] obtain v x where
    v: "ebind (py_index (streamlines sft ! s) p) (voxel_of (dimensions sft)) = Inr v"
    and c1: "c1 = c0(v := c0 v + 1)" and m1: "m1 = m0(v := fadd (m0 v) x)"
    by blast
  have ih: "(\<forall>u. c u = c1 u + count_list (visits_of sft s ps) (Inr u))
       \<and> ((\<forall>u. c1 u = 0 \<longrightarrow> m1 u = Fin 0) \<longrightarrow> (\<forall>u. c u = 0 \<longrightarrow> m u = Fin 0))"
    using Cons.IH [OF rest] .
  have a: "\<forall>u. c u = c0 u + count_list (visits_of sft s (p # ps)) (Inr u)"
    using ih v c1 by (auto simp: visits_of_def)
  have b: "(\<forall>u. c1 u = 0 \<longrightarrow> m1 u = Fin 0)" if "\<forall>u. c0 u = 0 \<longrightarrow> m0 u = Fin 0"
    using that c1 m1 by auto
  show ?case using a b ih by blast
qed

lemma outer_inv:
  assumes "foldM (\<lambda>s. foldM (accumulate sft k s) (points_of eo (streamlines sft ! s))) ss (c0, m0)
             = Inr (c, m)"
  shows "(\<forall>v. c v = c0 v + count_list (all_visits sft eo ss) (Inr v))
       \<and> ((\<forall>v. c0 v = 0 \<longrightarrow> m0 v = Fin 0) \<longrightarrow> (\<forall>v. c v = 0 \<longrightarrow> m v = Fin 0))"
  using assms
proof (induction ss arbitrary: c0 m0)
  case Nil
  then show ?case by (simp add: all_visits_def)
next
  case (Cons s ss)
  from Cons.prems obtain c1 m1 where
    step: "foldM (accumulate sft k s) (points_of eo (streamlines sft ! s)) (c0, m0) = Inr (c1, m1)"
    and rest: "foldM (\<lambda>s. foldM (accumulate sft k s) (points_of eo (streamlines sft ! s))) ss (c1, m1)
             = Inr (c, m)"
    by (auto simp: ebind_def split: sum.splits)
  note i1 = inner_inv [OF step] and i2 = Cons.IH [OF rest]
  have a: "\<forall>v. c v = c0 v + count_list (all_visits sft eo (s # ss)) (Inr v)"
    using i1 i2 by (simp add: all_visits_def)
  show ?case using a i1 i2 by blast
qed

lemma all_visits_visited:
  "all_visits sft eo [0..<length (streamlines sft)] = visited sft eo"
proof -
  have "map (\<lambda>s. visits_of sft s (points_of eo (streamlines sft ! s))) [0..<length (streamlines sft)]
      = map (\<lambda>sl. map (\<lambda>p. ebind (py_index sl p) (voxel_of (dimensions sft))) (points_of eo sl))
          (map (\<lambda>i. streamlines sft ! i) [0..<length (streamlines sft)])"
    by (simp add: visits_of_def)
  then show ?thesis
    by (simp add: all_visits_def visited_def map_nth)
qed

lemma accumulate_all_inv:
  assumes "accumulate_all sft k eo = Inr (c, m)"
  shows "(\<forall>v. c v = count_list (visited sft eo) (Inr v)) \<and> (\<forall>v. c v = 0 \<longrightarrow> m v = Fin 0)"
  using outer_inv [OF assms [unfolded accumulate_all_def]]
  by (simp add: all_visits_visited)

lemma fdiv_one: "fdiv x (Fin 1) = x"
  by (cases x) simp_all

text \<open>
  Claim C3. The voxels are those of the converted tractogram. If every voxel is visited
  by at most one of the selected points, counted over all streamlines, then
  \<open>project_dpp_to_map\<close> has the same outcome with \<open>sum_lines=True\<close> and with
  \<open>sum_lines=False\<close> (the same map, or the same exception). With \<open>sum_lines=False\<close> a
  voxel that no selected point visits has the value zero in the returned map: its sum
  is zero and its counter is raised to \<open>1e-6\<close> before the division.
\<close>

theorem project_dpp_to_map_sum_lines:
  "((\<forall>v. count_list (visited (to_corner corner_of (to_vox vox_of sft)) endpoints_only) (Inr v) \<le> 1)
      \<longrightarrow> project_dpp_to_map vox_of corner_of sft dpp_key True endpoints_only
          = project_dpp_to_map vox_of corner_of sft dpp_key False endpoints_only)
   \<and> (\<forall>the_map v.
         fst (project_dpp_to_map vox_of corner_of sft dpp_key False endpoints_only) = Inr the_map
         \<and> Inr v \<notin> set (visited (to_corner corner_of (to_vox vox_of sft)) endpoints_only)
         \<longrightarrow> the_map v = Fin 0)"
proof -
  let ?sft = "to_corner corner_of (to_vox vox_of sft)"
  have eq: "project_dpp_to_map vox_of corner_of sft dpp_key True endpoints_only
          = project_dpp_to_map vox_of corner_of sft dpp_key False endpoints_only"
    if once: "\<forall>v. count_list (visited ?sft endpoints_only) (Inr v) \<le> 1"
  proof (cases "accumulate_all ?sft dpp_key endpoints_only")
    case (Inl e)
    then show ?thesis by (simp add: project_dpp_to_map_def Let_def ebind_def)
  next
    case (Inr st)
    obtain c m where st: "st = (c, m)" by (cases st)
    note inv = accumulate_all_inv [OF Inr [unfolded st]]
    have "fdiv (m v) (Fin (max (real (c v)) (1 / 10 ^ 6))) = m v" for v
    proof (cases "c v = 0")
      case True
      with inv have "m v = Fin 0" by blast
      with True show ?thesis by simp
    next
      case False
      with inv once have "c v = 1"
        by (metis One_nat_def le_Suc_eq le_zero_eq)
      then show ?thesis by (simp add: fdiv_one)
    qed
    then have "(\<lambda>v. fdiv (m v) (Fin (max (real (c v)) (1 / 10 ^ 6)))) = m" by (rule ext)
    then show ?thesis
      using Inr st by (simp add: project_dpp_to_map_def Let_def ebind_def)
  qed
  have zero: "the_map v = Fin 0"
    if h: "fst (project_dpp_to_map vox_of corner_of sft dpp_key False endpoints_only) = Inr the_map"
      "Inr v \<notin> set (visited ?sft endpoints_only)" for the_map v
  proof -
    from h(1) obtain c m where acc: "accumulate_all ?sft dpp_key endpoints_only = Inr (c, m)"
      and res: "the_map = (\<lambda>v. fdiv (m v) (Fin (max (real (c v)) (1 / 10 ^ 6))))"
      by (auto simp: project_dpp_to_map_def Let_def ebind_def split: sum.splits)
    note inv = accumulate_all_inv [OF acc]
    from h(2) have "count_list (visited ?sft endpoints_only) (Inr v) = 0"
      by (simp add: count_list_0_iff)
    with inv have "c v = 0" by metis
    with inv have "m v = Fin 0" by blast
    with \<open>c v = 0\<close> show ?thesis by (simp add: res)
  qed
  show ?thesis using eq zero by blast
qed

lemma visited_skewed:
  "visited (to_corner half_shift (to_vox id_vox ex_skewed)) False
     = [Inr (0, 0, 0), Inr (1, 0, 0), Inr (2, 0, 0), Inr (3, 0, 0)]"
  by (simp add: visited_def to_corner_def to_vox_def ex_skewed_def id_vox_def half_shift_def
        points_of_def py_index_def norm_index_def ebind_def voxel_of_def np_index3_def
        trunc_int_def upt_rec)

lemma count_list_distinct: "distinct xs \<Longrightarrow> count_list xs x \<le> 1"
  by (induction xs) (auto simp: count_list_0_iff)

theorem project_dpp_to_map_sum_lines_witness:
  "project_dpp_to_map id_vox half_shift ex_skewed ''metric'' True False
     = project_dpp_to_map id_vox half_shift ex_skewed ''metric'' False False
   \<and> \<not> isl (fst (project_dpp_to_map id_vox half_shift ex_skewed ''metric'' False False))"
proof -
  have once: "\<forall>v. count_list (visited (to_corner half_shift (to_vox id_vox ex_skewed)) False)
                   (Inr v) \<le> 1"
    unfolding visited_skewed by (intro allI count_list_distinct) simp
  have run: "\<not> isl (fst (project_dpp_to_map id_vox half_shift ex_skewed ''metric'' False False))"
    by (simp add: project_dpp_to_map_def accumulate_all_def accumulate_def to_corner_def
          to_vox_def ex_skewed_def id_vox_def half_shift_def points_of_def py_index_def
          norm_index_def ebind_def voxel_of_def np_index3_def trunc_int_def getitem_def
          item_index_def entries_def as_scalar_def upt_rec)
  show ?thesis
    using once run
      project_dpp_to_map_sum_lines [of half_shift id_vox ex_skewed False "''metric''"]
    by blast
qed

lemma first_visit:
  assumes "data_per_point sft k = None"
    and "all_visits sft eo ss = r # rest"
  shows "foldM (\<lambda>s. foldM (accumulate sft k s) (points_of eo (streamlines sft ! s))) ss st
           = (case r of
                Inl e \<Rightarrow> Inl e
              | Inr v \<Rightarrow> Inl (if data_per_point sft = Map.empty then ValueError
                              else KeyError k))"
  using assms(2)
proof (induction ss)
  case Nil
  then show ?case by (simp add: all_visits_def)
next
  case (Cons s ss)
  show ?case
  proof (cases "points_of eo (streamlines sft ! s)")
    case Nil
    with Cons.prems have "all_visits sft eo ss = r # rest"
      by (simp add: all_visits_def visits_of_def)
    with Cons.IH Nil show ?thesis by (simp add: ebind_def)
  next
    case (Cons p ps)
    with Cons.prems
    have r: "r = ebind (py_index (streamlines sft ! s) p) (voxel_of (dimensions sft))"
      by (simp add: all_visits_def visits_of_def)
    have "accumulate sft k s p st
            = (case r of
                 Inl e \<Rightarrow> Inl e
               | Inr v \<Rightarrow> Inl (if data_per_point sft = Map.empty then ValueError
                               else KeyError k))"
    proof (cases "ebind (py_index (streamlines sft ! s) p) (voxel_of (dimensions sft))")
      case (Inl e)
      from accumulate_Inl [OF Inl] show ?thesis by (simp add: r Inl)
    next
      case (Inr v)
      from accumulate_missing [OF assms(1) Inr] show ?thesis by (simp add: r Inr)
    qed
    then show ?thesis
      using Cons by (cases r) (simp_all add: ebind_def)
  qed
qed

lemma no_visit:
  assumes "all_visits sft eo ss = []"
  shows "foldM (\<lambda>s. foldM (accumulate sft k s) (points_of eo (streamlines sft ! s))) ss st = Inr st"
  using assms
proof (induction ss)
  case Nil
  show ?case by simp
next
  case (Cons s ss)
  then have "points_of eo (streamlines sft ! s) = []" "all_visits sft eo ss = []"
    by (simp_all add: all_visits_def visits_of_def)
  with Cons.IH show ?case by (simp add: ebind_def)
qed

lemma converted_fields:
  "space (to_corner corner_of (to_vox vox_of sft)) = VOX"
  "origin (to_corner corner_of (to_vox vox_of sft)) = TRACKVIS"
  "data_per_point (to_corner corner_of (to_vox vox_of sft)) = data_per_point sft"
  "dimensions (to_corner corner_of (to_vox vox_of sft)) = dimensions sft"
  "streamlines (to_corner corner_of (to_vox vox_of sft))
     = map (map (\<lambda>p. corner_of (origin sft) (vox_of (space sft) p))) (streamlines sft)"
  by (simp_all add: to_corner_def to_vox_def)

text \<open>
  Claim C10, as the code has it. The tractogram is converted before the loops run and is
  left converted whatever happens next: voxel space, corner origin, every streamline
  point mapped. The per-point key is only read inside the loop body, after the voxel
  counter of the point has been incremented. So with an absent key the outcome depends
  on the first selected point. When it exists and lies inside the grid, the call raises
  at the read of the key: the \<open>KeyError\<close> of the container when the container stores some
  other key, and \<open>ValueError\<close> when it stores no key at all, since the container then
  returns an empty dictionary, which cannot be added to a voxel. When that point does
  not exist or lies outside the grid, the call raises \<open>IndexError\<close>. When no point is
  selected at all, the call raises nothing and returns the map of zeros.
\<close>

theorem project_dpp_to_map_missing_key:
  assumes "data_per_point sft dpp_key = None"
  shows "snd (project_dpp_to_map vox_of corner_of sft dpp_key sum_lines endpoints_only)
           = to_corner corner_of (to_vox vox_of sft)
     \<and> space (snd (project_dpp_to_map vox_of corner_of sft dpp_key sum_lines endpoints_only)) = VOX
     \<and> origin (snd (project_dpp_to_map vox_of corner_of sft dpp_key sum_lines endpoints_only))
           = TRACKVIS
     \<and> streamlines (snd (project_dpp_to_map vox_of corner_of sft dpp_key sum_lines endpoints_only))
           = map (map (\<lambda>p. corner_of (origin sft) (vox_of (space sft) p))) (streamlines sft)
     \<and> (\<forall>v rest. data_per_point sft \<noteq> Map.empty
           \<and> visited (to_corner corner_of (to_vox vox_of sft)) endpoints_only = Inr v # rest
           \<longrightarrow> fst (project_dpp_to_map vox_of corner_of sft dpp_key sum_lines endpoints_only)
               = Inl (KeyError dpp_key))
     \<and> (\<forall>v rest. data_per_point sft = Map.empty
           \<and> visited (to_corner corner_of (to_vox vox_of sft)) endpoints_only = Inr v # rest
           \<longrightarrow> fst (project_dpp_to_map vox_of corner_of sft dpp_key sum_lines endpoints_only)
               = Inl ValueError)
     \<and> (\<forall>e rest. visited (to_corner corner_of (to_vox vox_of sft)) endpoints_only = Inl e # rest
           \<longrightarrow> fst (project_dpp_to_map vox_of corner_of sft dpp_key sum_lines endpoints_only)
               = Inl e)
     \<and> (visited (to_corner corner_of (to_vox vox_of sft)) endpoints_only = []
           \<longrightarrow> fst (project_dpp_to_map vox_of corner_of sft dpp_key sum_lines endpoints_only)
               = Inr (\<lambda>v. Fin 0))"
proof -
  let ?sft = "to_corner corner_of (to_vox vox_of sft)"
  have none: "data_per_point ?sft dpp_key = None"
    using assms by (simp add: converted_fields)
  have same: "data_per_point ?sft = data_per_point sft"
    by (simp add: converted_fields)
  have state: "snd (project_dpp_to_map vox_of corner_of sft dpp_key sum_lines endpoints_only) = ?sft"
    by (simp add: project_dpp_to_map_def Let_def)
  have first: "fst (project_dpp_to_map vox_of corner_of sft dpp_key sum_lines endpoints_only)
               = Inl (if data_per_point sft = Map.empty then ValueError else KeyError dpp_key)"
    if "visited ?sft endpoints_only = Inr v # rest" for v rest
  proof -
    from that have "all_visits ?sft endpoints_only [0..<length (streamlines ?sft)] = Inr v # rest"
      by (simp add: all_visits_visited)
    from first_visit [OF none this]
    have "accumulate_all ?sft dpp_key endpoints_only
            = Inl (if data_per_point sft = Map.empty then ValueError else KeyError dpp_key)"
      by (simp add: accumulate_all_def same)
    then show ?thesis by (simp add: project_dpp_to_map_def Let_def ebind_def)
  qed
  have key: "fst (project_dpp_to_map vox_of corner_of sft dpp_key sum_lines endpoints_only)
               = Inl (KeyError dpp_key)"
    if "data_per_point sft \<noteq> Map.empty" "visited ?sft endpoints_only = Inr v # rest" for v rest
    using first [OF that(2)] that(1) by simp
  have val: "fst (project_dpp_to_map vox_of corner_of sft dpp_key sum_lines endpoints_only)
               = Inl ValueError"
    if "data_per_point sft = Map.empty" "visited ?sft endpoints_only = Inr v # rest" for v rest
    using first [OF that(2)] that(1) by simp
  have idx: "fst (project_dpp_to_map vox_of corner_of sft dpp_key sum_lines endpoints_only) = Inl e"
    if "visited ?sft endpoints_only = Inl e # rest" for e rest
  proof -
    from that have "all_visits ?sft endpoints_only [0..<length (streamlines ?sft)] = Inl e # rest"
      by (simp add: all_visits_visited)
    from first_visit [OF none this]
    have "accumulate_all ?sft dpp_key endpoints_only = Inl e"
      by (simp add: accumulate_all_def)
    then show ?thesis by (simp add: project_dpp_to_map_def Let_def ebind_def)
  qed
  have empty: "fst (project_dpp_to_map vox_of corner_of sft dpp_key sum_lines endpoints_only)
               = Inr (\<lambda>v. Fin 0)"
    if "visited ?sft endpoints_only = []"
  proof -
    from that have "all_visits ?sft endpoints_only [0..<length (streamlines ?sft)] = []"
      by (simp add: all_visits_visited)
    from no_visit [OF this]
    have "accumulate_all ?sft dpp_key endpoints_only = Inr (\<lambda>v. 0, \<lambda>v. Fin 0)"
      by (simp add: accumulate_all_def)
    then show ?thesis by (simp add: project_dpp_to_map_def Let_def ebind_def)
  qed
  have conv: "space (snd (project_dpp_to_map vox_of corner_of sft dpp_key sum_lines endpoints_only))
                = VOX"
    "origin (snd (project_dpp_to_map vox_of corner_of sft dpp_key sum_lines endpoints_only))
                = TRACKVIS"
    "streamlines (snd (project_dpp_to_map vox_of corner_of sft dpp_key sum_lines endpoints_only))
           = map (map (\<lambda>p. corner_of (origin sft) (vox_of (space sft) p))) (streamlines sft)"
    by (simp_all add: state converted_fields)
  show ?thesis
    using state conv key val idx empty by blast
qed

lemma visited_no_keys:
  "visited (to_corner half_shift (to_vox id_vox ex_no_keys)) False
     = [Inr (0, 0, 0), Inr (1, 0, 0), Inr (2, 0, 0), Inr (3, 0, 0)]"
  by (simp add: visited_def to_corner_def to_vox_def ex_no_keys_def id_vox_def half_shift_def
        points_of_def py_index_def norm_index_def ebind_def voxel_of_def np_index3_def
        trunc_int_def upt_rec)

theorem project_dpp_to_map_missing_key_witness:
  "data_per_point ex_skewed ''missing'' = None
   \<and> data_per_point ex_skewed \<noteq> Map.empty
   \<and> project_dpp_to_map id_vox half_shift ex_skewed ''missing'' False False
       = (Inl (KeyError ''missing''), to_corner half_shift (to_vox id_vox ex_skewed))
   \<and> data_per_point ex_no_keys ''missing'' = None
   \<and> data_per_point ex_no_keys = Map.empty
   \<and> project_dpp_to_map id_vox half_shift ex_no_keys ''missing'' False False
       = (Inl ValueError, to_corner half_shift (to_vox id_vox ex_no_keys))
   \<and> space (to_corner half_shift (to_vox id_vox ex_skewed)) = VOX
   \<and> origin (to_corner half_shift (to_vox id_vox ex_skewed)) = TRACKVIS
   \<and> space ex_skewed = RASMM
   \<and> origin ex_skewed = NIFTI"
proof -
  have h: "data_per_point ex_skewed ''missing'' = None"
    and ne: "data_per_point ex_skewed \<noteq> Map.empty"
    by (simp_all add: ex_skewed_def)
  have h': "data_per_point ex_no_keys ''missing'' = None"
    and e': "data_per_point ex_no_keys = Map.empty"
    by (simp_all add: ex_no_keys_def)
  have c: "space ex_skewed = RASMM" "origin ex_skewed = NIFTI"
    by (simp_all add: ex_skewed_def)
  note t = project_dpp_to_map_missing_key [OF h, of id_vox half_shift False False]
  note t' = project_dpp_to_map_missing_key [OF h', of id_vox half_shift False False]
  from t have st: "snd (project_dpp_to_map id_vox half_shift ex_skewed ''missing'' False False)
           = to_corner half_shift (to_vox id_vox ex_skewed)"
    by (rule conjunct1)
  from t' have st': "snd (project_dpp_to_map id_vox half_shift ex_no_keys ''missing'' False False)
           = to_corner half_shift (to_vox id_vox ex_no_keys)"
    by (rule conjunct1)
  from t ne visited_skewed
  have ky: "fst (project_dpp_to_map id_vox half_shift ex_skewed ''missing'' False False)
           = Inl (KeyError ''missing'')"
    by blast
  from t' e' visited_no_keys
  have vl: "fst (project_dpp_to_map id_vox half_shift ex_no_keys ''missing'' False False)
           = Inl ValueError"
    by blast
  from t st have cv: "space (to_corner half_shift (to_vox id_vox ex_skewed)) = VOX"
    "origin (to_corner half_shift (to_vox id_vox ex_skewed)) = TRACKVIS"
    by simp_all
  show ?thesis
    using h ne h' e' c st st' ky vl cv by (simp add: prod_eq_iff)
qed

text \<open>
  Claim C10 as stated fails on a tractogram without streamlines: the key is absent, yet
  the call returns normally, since the loop body that reads the key never runs.
\<close>

theorem project_dpp_to_map_missing_key_counterexample:
  "data_per_point ex_empty ''missing'' = None
   \<and> \<not> isl (fst (project_dpp_to_map id_vox half_shift ex_empty ''missing'' False False))
   \<and> fst (project_dpp_to_map id_vox half_shift ex_empty ''missing'' False False)
       \<noteq> Inl (KeyError ''missing'')"
  by (simp add: project_dpp_to_map_def accumulate_all_def to_corner_def to_vox_def ex_empty_def
        ebind_def)

end
